theory Spec2Isabelle
  imports
    Main
    "HOL-Library.Char_ord"
    "HOL-Library.List_Lexorder"
    "HOL-Library.Multiset"
    "HOL-Library.Sublist"
begin

section \<open>Strings and paths\<close>

text \<open>
  JavaScript strings are modelled as \<^typ>\<open>string\<close>; the default comparison of
  \<open>Array.prototype.sort\<close> (code unit by code unit) is the lexicographic order on
  \<^typ>\<open>char list\<close>.

  \<open>split\<close> is \<open>String.prototype.split\<close> with a one-character separator (what ramda's
  \<open>split\<close> calls). Its result is never empty, so ramda's \<open>last\<close> of it is \<^const>\<open>last\<close>.
\<close>

fun split :: "char \<Rightarrow> string \<Rightarrow> string list" where
  "split c [] = [[]]"
| "split c (x # xs) =
     (if x = c then [] # split c xs
      else (case split c xs of
              [] \<Rightarrow> [[x]]
            | w # ws \<Rightarrow> (x # w) # ws))"

text \<open>
  \<open>s.replace(pat, rep)\<close> with a string pattern: only the first occurrence is replaced.
  (The source only ever passes the empty replacement.)
\<close>

fun replace :: "string \<Rightarrow> string \<Rightarrow> string \<Rightarrow> string" where
  "replace pat rep [] = (if pat = [] then rep else [])"
| "replace pat rep (c # cs) =
     (if prefix pat (c # cs) then rep @ drop (length pat) (c # cs)
      else c # replace pat rep cs)"

definition intercalate :: "string \<Rightarrow> string list \<Rightarrow> string" where
  "intercalate sep xs = (case xs of [] \<Rightarrow> [] | y # ys \<Rightarrow> y @ concat (map (\<lambda>z. sep @ z) ys))"

text \<open>
  Node's POSIX \<open>path.normalize\<close> (here \<open>normalize_path\<close>), \<open>path.join\<close> and
  \<open>path.basename\<close>. The segments are kept on a stack (\<open>res\<close>, most recent first).
\<close>

fun normalizeString :: "bool \<Rightarrow> string list \<Rightarrow> string list \<Rightarrow> string list" where
  "normalizeString allowAboveRoot [] res = rev res"
| "normalizeString allowAboveRoot (s # ss) res =
     (if s = [] \<or> s = ''.'' then normalizeString allowAboveRoot ss res
      else if s = ''..'' then
        (case res of
           [] \<Rightarrow> normalizeString allowAboveRoot ss (if allowAboveRoot then [''..''] else [])
         | r # rs \<Rightarrow>
             if r = ''..''
             then normalizeString allowAboveRoot ss (if allowAboveRoot then ''..'' # res else res)
             else normalizeString allowAboveRoot ss rs)
      else normalizeString allowAboveRoot ss (s # res))"

definition normalize_path :: "string \<Rightarrow> string" where
  "normalize_path p =
     (if p = [] then ''.''
      else
        let isAbsolute = (hd p = CHR ''/'');
            trailingSeparator = (last p = CHR ''/'');
            q = intercalate ''/'' (normalizeString (\<not> isAbsolute) (split CHR ''/'' p) [])
        in if q = [] then (if isAbsolute then ''/'' else if trailingSeparator then ''./'' else ''.'')
           else (if isAbsolute then ''/'' else []) @ q @ (if trailingSeparator then ''/'' else []))"

definition join :: "string list \<Rightarrow> string" where
  "join args =
     (let joined = intercalate ''/'' (filter (\<lambda>a. a \<noteq> []) args)
      in if joined = [] then ''.'' else normalize_path joined)"

definition basename :: "string \<Rightarrow> string" where
  "basename p = last (split CHR ''/'' (rev (dropWhile (\<lambda>c. c = CHR ''/'') (rev p))))"

section \<open>The file system\<close>

text \<open>
  What \<open>fs.readdirSync\<close> and \<open>fs.statSync\<close> show of a directory is a tree: the entries of
  a directory are listed in the order in which the file system enumerates them. What a
  read stream or \<open>readFile\<close> delivers is looked up by path in \<open>contents\<close>; \<open>writable\<close>
  tells whether a write stream on a path can be opened.

  An \<open>error\<close> is a value thrown (a rejection, for an \<open>async\<close> function), except
  \<open>Unhandled\<close>: that is an \<open>error\<close> event on the stream of the given path, for which no
  listener is registered. Node ends the process on it: the promise under way never settles
  and no \<open>catch\<close> block runs.
\<close>

datatype fsnode = File | Dir "(string \<times> fsnode) list"

record filesystem =
  dirs :: "string \<rightharpoonup> (string \<times> fsnode) list"
  contents :: "string \<rightharpoonup> string"
  writable :: "string \<Rightarrow> bool"

datatype error =
    Error string
  | TypeError string
  | AwsError "string option" string
  | IOError string
  | Unhandled string

datatype io_event =
    ReadDir string
  | StatSync string
  | ConsoleLog
  | CreateWriteStream string
  | CreateReadStream string

section \<open>utils.js: the archive builder\<close>

definition VALID_FORMATS :: "string list" where
  "VALID_FORMATS = [''zip'', ''tar'']"

definition isValidFormat :: "string \<Rightarrow> bool" where
  "isValidFormat format = (format \<in> set VALID_FORMATS)"

text \<open>
  \<open>getAllFiles(dirPath, arrayOfFiles)\<close>: the entries of \<open>dirPath\<close> are walked in enumeration
  order; a directory is walked recursively with the same accumulator, a file is pushed as
  \<open>path.join(dirPath, '/', file)\<close>.
\<close>

fun getAllFiles :: "string \<Rightarrow> (string \<times> fsnode) list \<Rightarrow> string list \<Rightarrow> string list" where
  "getAllFiles dirPath [] arrayOfFiles = arrayOfFiles"
| "getAllFiles dirPath ((file, File) # files) arrayOfFiles =
     getAllFiles dirPath files (arrayOfFiles @ [join [dirPath, ''/'', file]])"
| "getAllFiles dirPath ((file, Dir sub) # files) arrayOfFiles =
     getAllFiles dirPath files (getAllFiles (dirPath @ ''/'' @ file) sub arrayOfFiles)"

text \<open>
  The file system calls that \<open>getAllFiles(dirPath)\<close> makes after its own \<open>readdirSync\<close>, in
  order: a \<open>statSync\<close> for every entry and, for a directory, the \<open>readdirSync\<close> and the
  calls of the recursive walk.
\<close>

fun walkEvents :: "string \<Rightarrow> (string \<times> fsnode) list \<Rightarrow> io_event list" where
  "walkEvents dirPath [] = []"
| "walkEvents dirPath ((file, File) # files) =
     StatSync (dirPath @ ''/'' @ file) # walkEvents dirPath files"
| "walkEvents dirPath ((file, Dir sub) # files) =
     StatSync (dirPath @ ''/'' @ file) # ReadDir (dirPath @ ''/'' @ file)
       # walkEvents (dirPath @ ''/'' @ file) sub @ walkEvents dirPath files"

text \<open>
  An archive entry as \<open>archive.append(stream, { name, date })\<close> queues it: the entry name,
  the bytes the stream delivers, and the modification time in milliseconds since the epoch.
\<close>

record entry =
  entryName :: string
  entryData :: string
  entryDate :: int

definition Date :: "int \<Rightarrow> int" where
  "Date ms = ms"

record pack_outcome =
  io :: "io_event list"
  result :: "error + string"
  fs_after :: filesystem

text \<open>
  \<open>appendAll\<close> is the body of the \<open>open\<close> handler: every file is appended with its output
  name and \<open>new Date(0)\<close>. The read streams have no \<open>error\<close> listener: a file that cannot
  be read is an \<open>Unhandled\<close> event.
\<close>

fun appendAll :: "filesystem \<Rightarrow> (string \<times> string) list \<Rightarrow> error + entry list" where
  "appendAll fs [] = Inr []"
| "appendAll fs ((input, output) # rest) =
     (case contents fs input of
        None \<Rightarrow> Inl (Unhandled input)
      | Some bytes \<Rightarrow>
          (case appendAll fs rest of
             Inl e \<Rightarrow> Inl e
           | Inr es \<Rightarrow> Inr (\<lparr>entryName = output, entryData = bytes, entryDate = Date 0\<rparr> # es)))"

text \<open>
  The list of (input, output) pairs that \<open>packDir\<close> appends: the sorted walk of the source
  directory, then the \<open>include\<close> files under their base names.
\<close>

definition sourceFiles :: "string \<Rightarrow> (string \<times> fsnode) list \<Rightarrow> (string \<times> string) list" where
  "sourceFiles inputDirPath listing =
     map (\<lambda>file. (file, replace inputDirPath [] file)) (sort (getAllFiles inputDirPath listing []))"

definition includeFiles :: "string list option \<Rightarrow> (string \<times> string) list" where
  "includeFiles include =
     (case include of None \<Rightarrow> [] | Some inc \<Rightarrow> map (\<lambda>file. (file, basename file)) inc)"

definition archiveEntries ::
  "filesystem \<Rightarrow> string \<Rightarrow> (string \<times> fsnode) list \<Rightarrow> string list option \<Rightarrow> error + entry list" where
  "archiveEntries fs inputDirPath listing include =
     appendAll fs (sourceFiles inputDirPath listing @ includeFiles include)"

text \<open>
  \<open>packDir(inputDirPath, outputFilePath, include, exclude)\<close>. The archiver library is a
  parameter: the bytes it writes for a format and a sequence of entries. \<open>include\<close> and
  \<open>exclude\<close> are \<open>None\<close> when nil. As in the source, \<open>patterns\<close> is built and then not used.
  The format error and a failing \<open>readdirSync\<close> are thrown, which rejects the promise. The
  write stream has no \<open>error\<close> listener: when it cannot be opened, that is an \<open>Unhandled\<close>
  event and the \<open>open\<close> handler, which creates the read streams, never runs. On success
  the output file holds the archive; what another run leaves at the output path is not
  modelled.
\<close>

definition packDir ::
  "(string \<Rightarrow> entry list \<Rightarrow> string) \<Rightarrow> filesystem \<Rightarrow> string \<Rightarrow> string \<Rightarrow>
   string list option \<Rightarrow> string list option \<Rightarrow> pack_outcome" where
  "packDir archiver fs inputDirPath outputFilePath include exclude =
     (let format = last (split CHR ''.'' outputFilePath) in
      if \<not> isValidFormat format
      then \<lparr>io = [],
            result = Inl (Error ''Please provide a valid format. Either a \"zip\" or a \"tar\"''),
            fs_after = fs\<rparr>
      else
        let patterns = [''**''] @ (case exclude of None \<Rightarrow> []
                                   | Some ex \<Rightarrow> map (\<lambda>excludedItem. ''!'' @ excludedItem) ex)
        in case dirs fs inputDirPath of
             None \<Rightarrow> \<lparr>io = [ReadDir inputDirPath], result = Inl (IOError inputDirPath), fs_after = fs\<rparr>
           | Some listing \<Rightarrow>
               let files = sourceFiles inputDirPath listing;
                   walk = ReadDir inputDirPath # walkEvents inputDirPath listing
                          @ [ConsoleLog, CreateWriteStream outputFilePath];
                   streams = walk @ map (\<lambda>f. CreateReadStream (fst f)) (files @ includeFiles include)
               in if \<not> writable fs outputFilePath
                  then \<lparr>io = walk, result = Inl (Unhandled outputFilePath), fs_after = fs\<rparr>
                  else case archiveEntries fs inputDirPath listing include of
                         Inl e \<Rightarrow> \<lparr>io = streams, result = Inl e, fs_after = fs\<rparr>
                       | Inr es \<Rightarrow>
                           \<lparr>io = streams,
                            result = Inr outputFilePath,
                            fs_after = fs\<lparr>contents := (contents fs)(outputFilePath \<mapsto> archiver format es)\<rparr>\<rparr>)"

text \<open>
  What the host and the libraries provide: \<open>utils.isArchivePath\<close> and \<open>utils.hashFile\<close> of
  @serverless/core (the latter as a function of the file's bytes), \<open>path.resolve\<close>,
  \<open>os.tmpdir()\<close>, the string \<open>Math.random().toString(36)\<close>, the archiver library,
  \<open>context.resourceId()\<close>, \<open>process.cwd()\<close> and the aws-iam-role component (from the role
  input and the region to the role's outputs). In every object \<open>None\<close> is a property
  that is absent or \<open>undefined\<close>.
\<close>

record role_obj =
  role_arn :: "string option"
  role_name :: "string option"
  service :: "string option"

record host =
  isArchivePath :: "string \<Rightarrow> bool"
  hashFile :: "string \<Rightarrow> string"
  resolve :: "string \<Rightarrow> string"
  tmpdir :: string
  random36 :: string
  archiver :: "string \<Rightarrow> entry list \<Rightarrow> string"
  resourceId :: string
  cwd :: string
  awsIamRole :: "role_obj option \<Rightarrow> string option \<Rightarrow> error + role_obj"

definition pack :: "host \<Rightarrow> filesystem \<Rightarrow> string \<Rightarrow> string list option \<Rightarrow> bool \<Rightarrow> pack_outcome" where
  "pack h fs code shims packDeps =
     (if isArchivePath h code
      then \<lparr>io = [], result = Inr (resolve h code), fs_after = fs\<rparr>
      else
        let exclude = (if \<not> packDeps then [''node_modules/**''] else []);
            outputFilePath = join [tmpdir h, drop 6 (random36 h) @ ''.zip'']
        in packDir (archiver h) fs code outputFilePath shims (Some exclude))"

text \<open>
  Two listings of the same directory tree that differ only in the order in which the
  entries of each directory are enumerated.
\<close>

inductive reorder :: "(string \<times> fsnode) list \<Rightarrow> (string \<times> fsnode) list \<Rightarrow> bool"
  and same_node :: "fsnode \<Rightarrow> fsnode \<Rightarrow> bool" where
  reorder_Nil: "reorder [] []"
| reorder_Cons: "same_node m n \<Longrightarrow> reorder es fs \<Longrightarrow> reorder ((f, m) # es) ((f, n) # fs)"
| reorder_swap: "reorder (a # b # es) (b # a # es)"
| reorder_trans: "reorder es fs \<Longrightarrow> reorder fs gs \<Longrightarrow> reorder es gs"
| same_File: "same_node File File"
| same_Dir: "reorder es fs \<Longrightarrow> same_node (Dir es) (Dir fs)"

text \<open>Sample data: an archiver that writes the entries out in order, and a small tree.\<close>

definition sample_archiver :: "string \<Rightarrow> entry list \<Rightarrow> string" where
  "sample_archiver format es =
     format @ concat (map (\<lambda>e. '':'' @ entryName e @ ''='' @ entryData e) es)"

definition sample_fs :: "(string \<times> fsnode) list \<Rightarrow> filesystem" where
  "sample_fs listing =
     \<lparr>dirs = [''/app'' \<mapsto> listing],
      contents = [''/app/b.js'' \<mapsto> ''B'', ''/app/lib/x.js'' \<mapsto> ''X'',
                  ''/app/lib/y.js'' \<mapsto> ''Y'', ''/shim.js'' \<mapsto> ''S'',
                  ''/app/index.js'' \<mapsto> ''I'', ''/app/node_modules/dep.js'' \<mapsto> ''D''],
      writable = (\<lambda>path. True)\<rparr>"

section \<open>Objects\<close>

text \<open>
  The objects that carry a function's configuration (\<open>inputs\<close>, \<open>defaults\<close>, \<open>config\<close>,
  \<open>this.state\<close>, the result of \<open>getLambda\<close>) have one type; a property that an object
  does not have is \<open>None\<close>.
\<close>

record layer_obj =
  layer_arn :: "string option"

record tracing_obj =
  Mode :: "string option"

record vpc_obj =
  SecurityGroupIds :: "string list"
  SubnetIds :: "string list"

record lambda_obj =
  name :: "string option"
  hash :: "string option"
  description :: "string option"
  memory :: "int option"
  timeout :: "int option"
  code :: "string option"
  bucket :: "string option"
  shims :: "string list option"
  handler :: "string option"
  runtime :: "string option"
  architectures :: "string list option"
  env :: "(string \<rightharpoonup> string) option"
  role :: "role_obj option"
  layer :: "layer_obj option"
  arn :: "string option"
  region :: "string option"
  tracingConfig :: "tracing_obj option"
  vpcConfig :: "vpc_obj option"
  architecture :: "string option"
  zipPath :: "string option"

definition empty_obj :: lambda_obj where
  "empty_obj =
     \<lparr>name = None, hash = None, description = None, memory = None, timeout = None, code = None,
      bucket = None, shims = None, handler = None, runtime = None, architectures = None,
      env = None, role = None, layer = None, arn = None, region = None, tracingConfig = None,
      vpcConfig = None, architecture = None, zipPath = None\<rparr>"

text \<open>Parameters and responses of the AWS SDK calls.\<close>

record code_obj =
  S3Bucket :: "string option"
  S3Key :: "string option"
  ZipFile :: "string option"

record environment_obj =
  Variables :: "(string \<rightharpoonup> string) option"

record aws_obj = code_obj +
  FunctionName :: "string option"
  Code :: "code_obj option"
  Description :: "string option"
  Handler :: "string option"
  MemorySize :: "int option"
  Publish :: "bool option"
  Role :: "string option"
  Runtime :: "string option"
  Architectures :: "string option list option"
  Timeout :: "int option"
  Environment :: "environment_obj option"
  VpcConfig :: "vpc_obj option"
  TracingConfig :: "tracing_obj option"
  Layers :: "string list option"
  CodeSha256 :: "string option"
  FunctionArn :: "string option"
  State :: "string option"
  LastUpdateStatus :: "string option"
  Name :: "string option"
  FunctionVersion :: "string option"

definition empty_code :: code_obj where
  "empty_code = \<lparr>S3Bucket = None, S3Key = None, ZipFile = None\<rparr>"

definition empty_aws :: aws_obj where
  "empty_aws =
     \<lparr>S3Bucket = None, S3Key = None, ZipFile = None, FunctionName = None, Code = None,
      Description = None, Handler = None, MemorySize = None, Publish = None, Role = None,
      Runtime = None, Architectures = None, Timeout = None, Environment = None,
      VpcConfig = None, TracingConfig = None, Layers = None, CodeSha256 = None,
      FunctionArn = None, State = None, LastUpdateStatus = None, Name = None,
      FunctionVersion = None\<rparr>"

section \<open>The backend\<close>

text \<open>
  A run is a trace of events: the SDK calls with their parameters, the timers set and the
  errors logged. The backend is any deterministic service: its response to a call, and
  the milliseconds the call takes, are functions of the events so far and of the call.
\<close>

datatype api =
    GetFunctionConfiguration
  | CreateFunction
  | UpdateFunctionCode
  | UpdateFunctionConfiguration
  | GetFunction
  | DeleteFunction
  | CreateAlias

datatype event =
    Call api aws_obj
  | SetTimeout nat
  | ConsoleError error

record backend =
  respond :: "event list \<Rightarrow> api \<Rightarrow> aws_obj \<Rightarrow> error + aws_obj"
  millis :: "event list \<Rightarrow> api \<Rightarrow> aws_obj \<Rightarrow> nat"

definition call :: "backend \<Rightarrow> event list \<Rightarrow> api \<Rightarrow> aws_obj \<Rightarrow> event list \<times> (error + aws_obj)" where
  "call lambda tr a params = (tr @ [Call a params], respond lambda tr a params)"

fun mutating :: "event \<Rightarrow> bool" where
  "mutating (Call a params) = (a \<in> {CreateFunction, UpdateFunctionCode, UpdateFunctionConfiguration,
                                      DeleteFunction, CreateAlias})"
| "mutating (SetTimeout ms) = False"
| "mutating (ConsoleError e) = False"

text \<open>\<open>e.code\<close> of a caught value, and JavaScript truthiness of a string property.\<close>

fun error_code :: "error \<Rightarrow> string option" where
  "error_code (AwsError c msg) = c"
| "error_code (Error msg) = None"
| "error_code (TypeError msg) = None"
| "error_code (IOError msg) = None"
| "error_code (Unhandled path) = None"

fun error_string :: "error \<Rightarrow> string" where
  "error_string (AwsError c msg) = (case c of None \<Rightarrow> ''Error'' | Some n \<Rightarrow> n) @ '': '' @ msg"
| "error_string (Error msg) = ''Error: '' @ msg"
| "error_string (TypeError msg) = ''TypeError: '' @ msg"
| "error_string (IOError msg) = ''Error: '' @ msg"
| "error_string (Unhandled path) = ''Error: '' @ path"

definition truthy :: "string option \<Rightarrow> bool" where
  "truthy s = (case s of None \<Rightarrow> False | Some v \<Rightarrow> v \<noteq> [])"

definition index0 :: "'a list \<Rightarrow> 'a option" where
  "index0 xs = (case xs of [] \<Rightarrow> None | x # _ \<Rightarrow> Some x)"

section \<open>utils.js: the backend calls\<close>

text \<open>
  Each function takes the SDK client (\<open>lambda\<close>) and the trace so far, and returns the
  extended trace with either the error thrown or the value returned. \<open>readFile\<close> reads
  from the file system. \<open>codeParams\<close> is the branch on \<open>bucket\<close> that \<open>createLambda\<close> and
  \<open>updateLambdaCode\<close> both have: the bucket and the base name of the package, or its bytes.

  \<open>createLambda\<close> and \<open>updateLambdaConfig\<close> take \<open>role.arn\<close> of their argument and the
  property \<open>architecture\<close> of it for the \<open>Architectures\<close> list.
\<close>

definition codeParams :: "filesystem \<Rightarrow> string option \<Rightarrow> string option \<Rightarrow> error + code_obj" where
  "codeParams fs bucket' zipPath' =
     (case zipPath' of
        None \<Rightarrow> Inl (TypeError ''The \"path\" argument must be of type string'')
      | Some p \<Rightarrow>
          if truthy bucket'
          then Inr (empty_code\<lparr>S3Bucket := bucket', S3Key := Some (basename p)\<rparr>)
          else (case contents fs p of
                  None \<Rightarrow> Inl (IOError p)
                | Some bytes \<Rightarrow> Inr (empty_code\<lparr>ZipFile := Some bytes\<rparr>)))"

definition layerParams :: "layer_obj option \<Rightarrow> string list option" where
  "layerParams layer' =
     (case layer' of
        None \<Rightarrow> None
      | Some l \<Rightarrow>
          (case layer_arn l of
             None \<Rightarrow> None
           | Some a \<Rightarrow> if a \<noteq> [] then Some [a] else None))"

definition createLambda ::
  "backend \<Rightarrow> filesystem \<Rightarrow> event list \<Rightarrow> lambda_obj \<Rightarrow> event list \<times> (error + string option \<times> string option)" where
  "createLambda lambda fs tr config =
     (case role config of
        None \<Rightarrow> (tr, Inl (TypeError ''Cannot read properties of undefined (reading 'arn')''))
      | Some r \<Rightarrow>
          let params = empty_aws
                \<lparr>FunctionName := name config,
                 Code := Some empty_code,
                 Description := description config,
                 Handler := handler config,
                 MemorySize := memory config,
                 Publish := Some True,
                 Role := role_arn r,
                 Runtime := runtime config,
                 Architectures := Some [architecture config],
                 Timeout := timeout config,
                 Environment := Some \<lparr>Variables = env config\<rparr>,
                 VpcConfig := vpcConfig config,
                 TracingConfig := tracingConfig config,
                 Layers := layerParams (layer config)\<rparr>
          in case codeParams fs (bucket config) (zipPath config) of
               Inl e \<Rightarrow> (tr, Inl e)
             | Inr c \<Rightarrow>
                 (case call lambda tr CreateFunction (params\<lparr>Code := Some c\<rparr>) of
                    (tr', Inl e) \<Rightarrow> (tr', Inl e)
                  | (tr', Inr res) \<Rightarrow> (tr', Inr (FunctionArn res, CodeSha256 res))))"

definition updateLambdaConfig ::
  "backend \<Rightarrow> event list \<Rightarrow> lambda_obj \<Rightarrow> event list \<times> (error + string option \<times> string option)" where
  "updateLambdaConfig lambda tr config =
     (case role config of
        None \<Rightarrow> (tr, Inl (TypeError ''Cannot read properties of undefined (reading 'arn')''))
      | Some r \<Rightarrow>
          let functionConfigParams = empty_aws
                \<lparr>FunctionName := name config,
                 Description := description config,
                 Handler := handler config,
                 MemorySize := memory config,
                 Role := role_arn r,
                 Runtime := runtime config,
                 Architectures := Some [architecture config],
                 Timeout := timeout config,
                 Environment := Some \<lparr>Variables = env config\<rparr>,
                 VpcConfig := vpcConfig config,
                 Layers := layerParams (layer config)\<rparr>
          in case call lambda tr UpdateFunctionConfiguration functionConfigParams of
               (tr', Inl e) \<Rightarrow> (tr', Inl e)
             | (tr', Inr res) \<Rightarrow> (tr', Inr (FunctionArn res, CodeSha256 res)))"

definition updateLambdaCode ::
  "backend \<Rightarrow> filesystem \<Rightarrow> event list \<Rightarrow> lambda_obj \<Rightarrow> event list \<times> (error + string option)" where
  "updateLambdaCode lambda fs tr config =
     (case codeParams fs (bucket config) (zipPath config) of
        Inl e \<Rightarrow> (tr, Inl e)
      | Inr c \<Rightarrow>
          let functionCodeParams = empty_aws
                \<lparr>FunctionName := name config,
                 Publish := Some True,
                 S3Bucket := S3Bucket c,
                 S3Key := S3Key c,
                 ZipFile := ZipFile c\<rparr>
          in case call lambda tr UpdateFunctionCode functionCodeParams of
               (tr', Inl e) \<Rightarrow> (tr', Inl e)
             | (tr', Inr res) \<Rightarrow> (tr', Inr (FunctionArn res)))"

text \<open>
  \<open>getLambda\<close> returns \<open>null\<close> (\<open>None\<close>) when the error code is
  \<open>ResourceNotFoundException\<close>, and otherwise an object with the ten properties of its
  object literal.
\<close>

definition getLambda ::
  "backend \<Rightarrow> event list \<Rightarrow> string option \<Rightarrow> event list \<times> (error + lambda_obj option)" where
  "getLambda lambda tr name' =
     (case call lambda tr GetFunctionConfiguration (empty_aws\<lparr>FunctionName := name'\<rparr>) of
        (tr', Inr res) \<Rightarrow>
          (tr', Inr (Some (empty_obj
             \<lparr>name := FunctionName res,
              description := Description res,
              timeout := Timeout res,
              runtime := Runtime res,
              role := Some \<lparr>role_arn = Role res, role_name = None, service = None\<rparr>,
              handler := Handler res,
              memory := MemorySize res,
              hash := CodeSha256 res,
              env := (case Environment res of None \<Rightarrow> Some Map.empty | Some e \<Rightarrow> Variables e),
              arn := FunctionArn res\<rparr>)))
      | (tr', Inl e) \<Rightarrow>
          if error_code e = Some ''ResourceNotFoundException'' then (tr', Inr None)
          else (tr', Inl e))"

definition deleteLambda :: "backend \<Rightarrow> event list \<Rightarrow> string option \<Rightarrow> event list \<times> (error + unit)" where
  "deleteLambda lambda tr name' =
     (case call lambda tr DeleteFunction (empty_aws\<lparr>FunctionName := name'\<rparr>) of
        (tr', Inr res) \<Rightarrow> (tr', Inr ())
      | (tr', Inl e) \<Rightarrow>
          if error_code e \<noteq> Some ''ResourceNotFoundException'' then (tr', Inl e)
          else (tr', Inr ()))"

text \<open>
  \<open>configChanged\<close>: ramda's \<open>pick\<close> keeps the eight keys, the role of the desired side is
  cut down to its \<open>arn\<close>, and ramda's \<open>equals\<close> is structural equality.
\<close>

definition pick_keys :: "lambda_obj \<Rightarrow> lambda_obj" where
  "pick_keys l =
     empty_obj\<lparr>description := description l, runtime := runtime l, role := role l,
               handler := handler l, memory := memory l, timeout := timeout l,
               env := env l, hash := hash l\<rparr>"

definition configChanged :: "lambda_obj \<Rightarrow> lambda_obj \<Rightarrow> error + bool" where
  "configChanged prevLambda lambda =
     (let inputs = pick_keys lambda in
      case role inputs of
        None \<Rightarrow> Inl (TypeError ''Cannot read properties of undefined (reading 'arn')'')
      | Some r \<Rightarrow>
          let inputs = inputs\<lparr>role := Some \<lparr>role_arn = role_arn r, role_name = None, service = None\<rparr>\<rparr>;
              prevInputs = pick_keys prevLambda
          in Inr (\<not> (inputs = prevInputs)))"

text \<open>
  \<open>waitUntilReady\<close>; \<open>pollInterval\<close> is \<open>None\<close> when the caller leaves it out. \<open>elapsed\<close> is
  \<open>new Date().getTime() - startTime\<close> at the loop test: zero at first, then advanced in each
  round by the timer, which Node runs for at least one millisecond, and by \<open>millis\<close>, which
  stands for the duration of the \<open>getFunction\<close> call and for any lateness of the timer.
\<close>

definition waitDurationMillis :: nat where
  "waitDurationMillis = 600000"

definition ready :: "aws_obj \<Rightarrow> bool" where
  "ready Configuration = (State Configuration = Some ''Active''
                          \<and> LastUpdateStatus Configuration = Some ''Successful'')"

function waitLoop ::
  "backend \<Rightarrow> string option \<Rightarrow> nat \<Rightarrow> nat \<Rightarrow> event list \<Rightarrow> event list \<times> (error + bool)" where
  "waitLoop lambda fnName pollInterval elapsed tr =
     (if elapsed < waitDurationMillis
      then
        (case respond lambda tr GetFunction (empty_aws\<lparr>FunctionName := fnName\<rparr>) of
           Inl e \<Rightarrow> (tr @ [Call GetFunction (empty_aws\<lparr>FunctionName := fnName\<rparr>)], Inl e)
         | Inr Configuration \<Rightarrow>
             if ready Configuration
             then (tr @ [Call GetFunction (empty_aws\<lparr>FunctionName := fnName\<rparr>)], Inr True)
             else waitLoop lambda fnName pollInterval
                    (elapsed + millis lambda tr GetFunction (empty_aws\<lparr>FunctionName := fnName\<rparr>)
                       + max 1 pollInterval)
                    (tr @ [Call GetFunction (empty_aws\<lparr>FunctionName := fnName\<rparr>),
                           SetTimeout pollInterval]))
      else (tr, Inr False))"
  by pat_completeness auto
termination
  by (relation "measure (\<lambda>(lambda, fnName, pollInterval, elapsed, tr). waitDurationMillis - elapsed)")
     auto

definition waitUntilReady ::
  "backend \<Rightarrow> event list \<Rightarrow> string option \<Rightarrow> nat option \<Rightarrow> event list \<times> (error + bool)" where
  "waitUntilReady lambda tr fnName pollInterval =
     waitLoop lambda fnName (case pollInterval of None \<Rightarrow> 5000 | Some ms \<Rightarrow> ms) 0 tr"

section \<open>The component\<close>

definition outputsList_pick :: "lambda_obj \<Rightarrow> lambda_obj" where
  "outputsList_pick config =
     empty_obj\<lparr>name := name config, hash := hash config, description := description config,
               memory := memory config, timeout := timeout config, code := code config,
               bucket := bucket config, shims := shims config, handler := handler config,
               runtime := runtime config, architectures := architectures config,
               env := env config, role := role config, layer := layer config,
               arn := arn config, region := region config\<rparr>"

definition defaults :: "host \<Rightarrow> lambda_obj" where
  "defaults h =
     empty_obj\<lparr>description := Some ''AWS Lambda Component'',
               memory := Some 512,
               timeout := Some 10,
               code := Some (cwd h),
               bucket := None,
               shims := Some [],
               handler := Some ''handler.hello'',
               runtime := Some ''nodejs18.x'',
               architectures := Some [''arm64''],
               env := Some Map.empty,
               region := Some ''us-east-1'',
               tracingConfig := Some \<lparr>Mode = Some ''PassThrough''\<rparr>\<rparr>"

text \<open>
  ramda's \<open>mergeDeepRight\<close> on these objects: a property of the right object wins, and
  two plain objects under the same key are merged key by key. Since \<open>None\<close> stands for an
  absent property, an input that has a key with the value \<open>undefined\<close> (which would
  overwrite the default) is outside these objects.
\<close>

definition right :: "'a option \<Rightarrow> 'a option \<Rightarrow> 'a option" where
  "right l r = (case r of None \<Rightarrow> l | Some v \<Rightarrow> Some v)"

definition deep :: "('a \<Rightarrow> 'a \<Rightarrow> 'a) \<Rightarrow> 'a option \<Rightarrow> 'a option \<Rightarrow> 'a option" where
  "deep m l r = (case (l, r) of (Some a, Some b) \<Rightarrow> Some (m a b) | _ \<Rightarrow> right l r)"

definition mergeDeepRight :: "lambda_obj \<Rightarrow> lambda_obj \<Rightarrow> lambda_obj" where
  "mergeDeepRight l r =
     \<lparr>name = right (name l) (name r),
      hash = right (hash l) (hash r),
      description = right (description l) (description r),
      memory = right (memory l) (memory r),
      timeout = right (timeout l) (timeout r),
      code = right (code l) (code r),
      bucket = right (bucket l) (bucket r),
      shims = right (shims l) (shims r),
      handler = right (handler l) (handler r),
      runtime = right (runtime l) (runtime r),
      architectures = right (architectures l) (architectures r),
      env = deep (\<lambda>a b. a ++ b) (env l) (env r),
      role = deep (\<lambda>a b. \<lparr>role_arn = right (role_arn a) (role_arn b),
                            role_name = right (role_name a) (role_name b),
                            service = right (service a) (service b)\<rparr>) (role l) (role r),
      layer = deep (\<lambda>a b. \<lparr>layer_arn = right (layer_arn a) (layer_arn b)\<rparr>) (layer l) (layer r),
      arn = right (arn l) (arn r),
      region = right (region l) (region r),
      tracingConfig = deep (\<lambda>a b. \<lparr>Mode = right (Mode a) (Mode b)\<rparr>) (tracingConfig l) (tracingConfig r),
      vpcConfig = right (vpcConfig l) (vpcConfig r),
      architecture = right (architecture l) (architecture r),
      zipPath = right (zipPath l) (zipPath r)\<rparr>"

text \<open>
  \<open>prepare\<close> is the first part of \<open>default\<close>, up to the hash of the package: the merged
  configuration with its name, the role, \<open>zipPath\<close> and \<open>hash\<close>. It makes no SDK call.
\<close>

definition prepare :: "host \<Rightarrow> filesystem \<Rightarrow> lambda_obj \<Rightarrow> lambda_obj \<Rightarrow> error + lambda_obj \<times> filesystem" where
  "prepare h fs state inputs =
     (let config = mergeDeepRight (defaults h) inputs;
          config = config\<lparr>name := (if truthy (name state) then name state
                                     else if truthy (name inputs) then name inputs
                                     else Some (resourceId h))\<rparr>
      in case (if role config = None then awsIamRole h None (region config)
               else awsIamRole h (role config) None) of
           Inl e \<Rightarrow> Inl e
         | Inr outputsAwsIamRole \<Rightarrow>
             let config = config\<lparr>role := Some \<lparr>role_arn = role_arn outputsAwsIamRole,
                                                role_name = None, service = None\<rparr>\<rparr>
             in case code config of
                  None \<Rightarrow> Inl (TypeError ''The \"path\" argument must be of type string'')
                | Some c \<Rightarrow>
                    let packed = pack h fs c (shims config) True
                    in case result packed of
                         Inl e \<Rightarrow> Inl e
                       | Inr path \<Rightarrow>
                           (case contents (fs_after packed) path of
                              None \<Rightarrow> Inl (IOError path)
                            | Some bytes \<Rightarrow>
                                Inr (config\<lparr>zipPath := Some path, hash := Some (hashFile h bytes)\<rparr>,
                                     fs_after packed)))"

text \<open>
  The \<open>try\<close> block of \<open>default\<close>: the error of the configuration update, or of the wait
  after it, is caught and logged. It returns the configuration, with the hash of the
  update's response once the update has succeeded.
\<close>

definition updateConfigBlock :: "backend \<Rightarrow> event list \<Rightarrow> lambda_obj \<Rightarrow> event list \<times> lambda_obj" where
  "updateConfigBlock lambda tr config =
     (case updateLambdaConfig lambda tr config of
        (tr1, Inl e) \<Rightarrow> (tr1 @ [ConsoleError e], config)
      | (tr1, Inr updateResult) \<Rightarrow>
          let config = config\<lparr>hash := snd updateResult\<rparr>
          in case waitUntilReady lambda tr1 (name config) None of
               (tr2, Inl e) \<Rightarrow> (tr2 @ [ConsoleError e], config)
             | (tr2, Inr r) \<Rightarrow> (tr2, config))"

text \<open>
  The first statement of the update branch of \<open>default\<close>: the code is uploaded, and its
  readiness awaited, when the first architectures differ or, without a bucket, the hashes
  do. \<open>prevArchitectures\<close> and \<open>configArchitectures\<close> are the two \<open>architectures\<close> arrays.
\<close>

definition updateCodeBlock ::
  "backend \<Rightarrow> filesystem \<Rightarrow> event list \<Rightarrow> lambda_obj \<Rightarrow> string list \<Rightarrow> string list \<Rightarrow> lambda_obj \<Rightarrow>
   event list \<times> (error + bool)" where
  "updateCodeBlock lambda fs tr prevLambda prevArchitectures configArchitectures config =
     (if index0 prevArchitectures \<noteq> index0 configArchitectures
         \<or> (\<not> truthy (bucket config) \<and> hash prevLambda \<noteq> hash config)
      then (case updateLambdaCode lambda fs tr config of
              (tr2, Inl e) \<Rightarrow> (tr2, Inl e)
            | (tr2, Inr a) \<Rightarrow> waitUntilReady lambda tr2 (name config) None)
      else (tr, Inr True))"

text \<open>
  The \<open>else\<close> branch of \<open>default\<close>, for the object \<open>prevLambda\<close> that \<open>getLambda\<close> returned.
  Reading index 0 of \<open>prevLambda.architectures\<close> throws when that property is absent.
\<close>

definition evaluate ::
  "backend \<Rightarrow> filesystem \<Rightarrow> event list \<Rightarrow> lambda_obj \<Rightarrow> lambda_obj \<Rightarrow> event list \<times> (error + lambda_obj)" where
  "evaluate lambda fs tr1 prevLambda config =
     (let config = config\<lparr>arn := arn prevLambda\<rparr>
      in case configChanged prevLambda config of
           Inl e \<Rightarrow> (tr1, Inl e)
         | Inr False \<Rightarrow> (tr1, Inr config)
         | Inr True \<Rightarrow>
             (case architectures prevLambda of
                None \<Rightarrow> (tr1, Inl (TypeError ''Cannot read properties of undefined (reading '0')''))
              | Some prevArchitectures \<Rightarrow>
                  (case architectures config of
                     None \<Rightarrow> (tr1, Inl (TypeError ''Cannot read properties of undefined (reading '0')''))
                   | Some configArchitectures \<Rightarrow>
                       (case updateCodeBlock lambda fs tr1 prevLambda prevArchitectures
                               configArchitectures config of
                          (tr3, Inl e) \<Rightarrow> (tr3, Inl e)
                        | (tr3, Inr r) \<Rightarrow>
                            (case updateConfigBlock lambda tr3 config of
                               (tr4, config') \<Rightarrow> (tr4, Inr config'))))))"

text \<open>
  The middle of \<open>default\<close>: \<open>getLambda\<close>, then creation, or the update branch.
\<close>

definition reconcile ::
  "backend \<Rightarrow> filesystem \<Rightarrow> event list \<Rightarrow> lambda_obj \<Rightarrow> event list \<times> (error + lambda_obj)" where
  "reconcile lambda fs tr config =
     (case getLambda lambda tr (name config) of
        (tr1, Inl e) \<Rightarrow> (tr1, Inl e)
      | (tr1, Inr None) \<Rightarrow>
          (case createLambda lambda fs tr1 config of
             (tr2, Inl e) \<Rightarrow> (tr2, Inl e)
           | (tr2, Inr createResult) \<Rightarrow>
               let config = config\<lparr>arn := fst createResult, hash := snd createResult\<rparr>
               in case waitUntilReady lambda tr2 (name config) None of
                    (tr3, Inl e) \<Rightarrow> (tr3, Inl e)
                  | (tr3, Inr r) \<Rightarrow> (tr3, Inr config))
      | (tr1, Inr (Some prevLambda)) \<Rightarrow> evaluate lambda fs tr1 prevLambda config)"

record outcome =
  trace :: "event list"
  returned :: "error + lambda_obj"
  state_after :: lambda_obj

text \<open>
  The end of \<open>default\<close>, after the branches: the delete of a function under the previous
  name, then the outputs are stored as \<open>this.state\<close> and saved. When an error was thrown,
  \<open>this.state\<close> is what it was.
\<close>

definition finish :: "backend \<Rightarrow> lambda_obj \<Rightarrow> event list \<times> (error + lambda_obj) \<Rightarrow> outcome" where
  "finish lambda state reconciled =
     (case reconciled of
        (tr, Inl e) \<Rightarrow> \<lparr>trace = tr, returned = Inl e, state_after = state\<rparr>
      | (tr, Inr config) \<Rightarrow>
          (case (if truthy (name state) \<and> name state \<noteq> name config
                 then deleteLambda lambda tr (name state)
                 else (tr, Inr ())) of
             (tr', Inl e) \<Rightarrow> \<lparr>trace = tr', returned = Inl e, state_after = state\<rparr>
           | (tr', Inr u) \<Rightarrow>
               let outputs = outputsList_pick config
               in \<lparr>trace = tr', returned = Inr outputs, state_after = outputs\<rparr>))"

text \<open>
  \<open>default(inputs)\<close> on the component's \<open>this.state\<close>, here \<open>default_deploy\<close>: the
  preparation, the branches and the end.
\<close>

definition default_deploy :: "host \<Rightarrow> backend \<Rightarrow> filesystem \<Rightarrow> lambda_obj \<Rightarrow> lambda_obj \<Rightarrow> outcome" where
  "default_deploy h lambda fs state inputs =
     (case prepare h fs state inputs of
        Inl e \<Rightarrow> \<lparr>trace = [], returned = Inl e, state_after = state\<rparr>
      | Inr (config, fs') \<Rightarrow> finish lambda state (reconcile lambda fs' [] config))"

text \<open>\<open>createAlias({ alias, version })\<close> on the component's \<open>this.state\<close>.\<close>

definition createAlias ::
  "backend \<Rightarrow> event list \<Rightarrow> lambda_obj \<Rightarrow> string option \<Rightarrow> string option \<Rightarrow> event list \<times> (error + unit)" where
  "createAlias lambda tr state alias version =
     (case call lambda tr CreateAlias
             (empty_aws\<lparr>FunctionName := name state, Name := alias, FunctionVersion := version\<rparr>) of
        (tr', Inr res) \<Rightarrow> (tr', Inr ())
      | (tr', Inl e) \<Rightarrow>
          if error_code e = Some ''ResourceConflictException'' then (tr', Inr ())
          else (tr', Inl (Error (error_string e))))"

definition sample_host :: host where
  "sample_host =
     \<lparr>isArchivePath = (\<lambda>p. False),
      hashFile = (\<lambda>bytes. ''sha256:'' @ bytes),
      resolve = (\<lambda>p. p),
      tmpdir = ''/tmp'',
      random36 = ''0.4fzyo82mvyr'',
      archiver = sample_archiver,
      resourceId = ''fn-1'',
      cwd = ''/app'',
      awsIamRole = (\<lambda>r reg. Inr \<lparr>role_arn = Some ''arn:aws:iam::1:role/r'', role_name = Some ''r'',
                                    service = Some ''lambda.amazonaws.com''\<rparr>)\<rparr>"

section \<open>Runs of the waiter and sample backends\<close>

text \<open>The state of the loop after k polls that did not find the function ready.\<close>

definition poll_step :: "backend \<Rightarrow> string option \<Rightarrow> nat \<Rightarrow> nat \<times> event list \<Rightarrow> nat \<times> event list" where
  "poll_step lambda fnName pollInterval st =
     (fst st + millis lambda (snd st) GetFunction (empty_aws\<lparr>FunctionName := fnName\<rparr>) + max 1 pollInterval,
      snd st @ [Call GetFunction (empty_aws\<lparr>FunctionName := fnName\<rparr>), SetTimeout pollInterval])"

fun after_polls :: "backend \<Rightarrow> string option \<Rightarrow> nat \<Rightarrow> nat \<Rightarrow> nat \<times> event list \<Rightarrow> nat \<times> event list" where
  "after_polls lambda fnName pollInterval 0 st = st"
| "after_polls lambda fnName pollInterval (Suc k) st =
     poll_step lambda fnName pollInterval (after_polls lambda fnName pollInterval k st)"

definition pending_at :: "backend \<Rightarrow> string option \<Rightarrow> nat \<times> event list \<Rightarrow> bool" where
  "pending_at lambda fnName st =
     (fst st < waitDurationMillis \<and>
      (case respond lambda (snd st) GetFunction (empty_aws\<lparr>FunctionName := fnName\<rparr>) of
         Inl e \<Rightarrow> False
       | Inr Configuration \<Rightarrow> \<not> ready Configuration))"

text \<open>
  A sample backend: \<open>getFunction\<close> reports the function ready once the trace has reached a
  given length (never, for \<open>None\<close>), every other call is answered by \<open>answers\<close>, and every
  call takes \<open>ms\<close> milliseconds.
\<close>

definition scripted :: "(api \<Rightarrow> error + aws_obj) \<Rightarrow> nat option \<Rightarrow> nat \<Rightarrow> backend" where
  "scripted answers readyAfter ms =
     \<lparr>respond = (\<lambda>tr a params.
         if a = GetFunction
         then Inr (if (case readyAfter of None \<Rightarrow> False | Some n \<Rightarrow> n \<le> length tr)
                   then empty_aws\<lparr>State := Some ''Active'', LastUpdateStatus := Some ''Successful''\<rparr>
                   else empty_aws\<lparr>State := Some ''Pending'', LastUpdateStatus := Some ''InProgress''\<rparr>)
         else answers a),
      millis = (\<lambda>tr a params. ms)\<rparr>"

text \<open>
  Sample data for the component: the configuration and the file system that \<open>prepare\<close>
  yields for empty inputs on the sample host, a deployed function's configuration as the
  backend reports it, the object \<open>getLambda\<close> makes of such a response, and two errors.
\<close>

definition sample_config :: lambda_obj where
  "sample_config =
     \<lparr>name = Some ''fn-1'', hash = Some ''sha256:zip:/index.js=I'',
      description = Some ''AWS Lambda Component'', memory = Some 512,
      timeout = Some 10, code = Some ''/app'', bucket = None,
      shims = Some [], handler = Some ''handler.hello'',
      runtime = Some ''nodejs18.x'', architectures = Some [''arm64''],
      env = Some Map.empty,
      role = Some \<lparr>role_arn = Some ''arn:aws:iam::1:role/r'', role_name = None, service = None\<rparr>,
      layer = None, arn = None, region = Some ''us-east-1'',
      tracingConfig = Some \<lparr>Mode = Some ''PassThrough''\<rparr>,
      vpcConfig = None, architecture = None,
      zipPath = Some ''/tmp/o82mvyr.zip''\<rparr>"

definition packed_fs :: filesystem where
  "packed_fs = (sample_fs [(''index.js'', File)])
     \<lparr>contents := (contents (sample_fs [(''index.js'', File)]))(''/tmp/o82mvyr.zip'' \<mapsto> ''zip:/index.js=I'')\<rparr>"

definition sample_remote :: aws_obj where
  "sample_remote =
     empty_aws\<lparr>FunctionName := Some ''fn-1'',
               Description := Some ''AWS Lambda Component'',
               Handler := Some ''handler.hello'',
               MemorySize := Some 512,
               Role := Some ''arn:aws:iam::1:role/r'',
               Runtime := Some ''nodejs18.x'',
               Architectures := Some [Some ''arm64''],
               Timeout := Some 10,
               CodeSha256 := Some ''sha256:zip:/index.js=I'',
               FunctionArn := Some ''arn:aws:lambda:us-east-1:1:function:fn-1'',
               State := Some ''Active'',
               LastUpdateStatus := Some ''Successful''\<rparr>"

definition observed_of :: "aws_obj \<Rightarrow> lambda_obj" where
  "observed_of res =
     empty_obj
       \<lparr>name := FunctionName res,
        description := Description res,
        timeout := Timeout res,
        runtime := Runtime res,
        role := Some \<lparr>role_arn = Role res, role_name = None, service = None\<rparr>,
        handler := Handler res,
        memory := MemorySize res,
        hash := CodeSha256 res,
        env := (case Environment res of None \<Rightarrow> Some Map.empty | Some e \<Rightarrow> Variables e),
        arn := FunctionArn res\<rparr>"

definition not_found :: error where
  "not_found = AwsError (Some ''ResourceNotFoundException'') ''Function not found''"


section \<open>Properties of the archive builder\<close>

lemma split_nonempty: "split c s \<noteq> []"
  by (induction s) (auto split: list.splits)

lemma getAllFiles_acc_all: "\<forall>acc. getAllFiles d es acc = acc @ getAllFiles d es []"
proof (rule getAllFiles.induct
    [where P = "\<lambda>d es x. \<forall>acc. getAllFiles d es acc = acc @ getAllFiles d es []"])
  fix d :: string and acc :: "string list"
  show "\<forall>acc. getAllFiles d [] acc = acc @ getAllFiles d [] []" by simp
next
  fix d f :: string and es :: "(string \<times> fsnode) list" and acc :: "string list"
  assume IH: "\<forall>acc. getAllFiles d es acc = acc @ getAllFiles d es []"
  show "\<forall>acc. getAllFiles d ((f, File) # es) acc = acc @ getAllFiles d ((f, File) # es) []"
  proof
    fix a
    have "getAllFiles d ((f, File) # es) a = (a @ [join [d, ''/'', f]]) @ getAllFiles d es []"
      using IH [rule_format, of "a @ [join [d, ''/'', f]]"] by simp
    moreover have "getAllFiles d ((f, File) # es) [] = [join [d, ''/'', f]] @ getAllFiles d es []"
      using IH [rule_format, of "[join [d, ''/'', f]]"] by simp
    ultimately show "getAllFiles d ((f, File) # es) a = a @ getAllFiles d ((f, File) # es) []"
      by simp
  qed
next
  fix d f :: string and sub es :: "(string \<times> fsnode) list" and acc :: "string list"
  assume IH1: "\<forall>acc. getAllFiles (d @ ''/'' @ f) sub acc = acc @ getAllFiles (d @ ''/'' @ f) sub []"
  assume IH2: "\<forall>acc. getAllFiles d es acc = acc @ getAllFiles d es []"
  show "\<forall>acc. getAllFiles d ((f, Dir sub) # es) acc = acc @ getAllFiles d ((f, Dir sub) # es) []"
  proof
    fix a
    have "getAllFiles d ((f, Dir sub) # es) a
            = (a @ getAllFiles (d @ ''/'' @ f) sub []) @ getAllFiles d es []"
      using IH1 [rule_format, of a] IH2 [rule_format, of "getAllFiles (d @ ''/'' @ f) sub a"]
      by simp
    moreover have "getAllFiles d ((f, Dir sub) # es) []
            = getAllFiles (d @ ''/'' @ f) sub [] @ getAllFiles d es []"
      using IH2 [rule_format, of "getAllFiles (d @ ''/'' @ f) sub []"] by simp
    ultimately show "getAllFiles d ((f, Dir sub) # es) a = a @ getAllFiles d ((f, Dir sub) # es) []"
      by simp
  qed
qed

lemma getAllFiles_acc: "getAllFiles d es acc = acc @ getAllFiles d es []"
  using getAllFiles_acc_all by blast

lemma getAllFiles_Cons:
  "getAllFiles d (e # es) [] = getAllFiles d [e] [] @ getAllFiles d es []"
proof (cases e)
  case (Pair f n)
  show ?thesis
  proof (cases n)
    case File
    with Pair show ?thesis using getAllFiles_acc [of d es "[join [d, ''/'', f]]"] by simp
  next
    case (Dir sub)
    with Pair show ?thesis
      using getAllFiles_acc [of d es "getAllFiles (d @ ''/'' @ f) sub []"] by simp
  qed
qed

lemma reorder_mset:
  "(reorder es fs \<longrightarrow> (\<forall>d. mset (getAllFiles d es []) = mset (getAllFiles d fs [])))
 \<and> (same_node m n \<longrightarrow> (\<forall>d f. mset (getAllFiles d [(f, m)] []) = mset (getAllFiles d [(f, n)] [])))"
proof (induction rule: reorder_same_node.induct)
  case reorder_Nil
  show ?case by simp
next
  case (reorder_Cons m n es fs f)
  show ?case
  proof
    fix d
    show "mset (getAllFiles d ((f, m) # es) []) = mset (getAllFiles d ((f, n) # fs) [])"
      using reorder_Cons.IH getAllFiles_Cons [of d "(f, m)" es] getAllFiles_Cons [of d "(f, n)" fs]
      by simp
  qed
next
  case (reorder_swap a b es)
  show ?case
  proof
    fix d
    show "mset (getAllFiles d (a # b # es) []) = mset (getAllFiles d (b # a # es) [])"
      using getAllFiles_Cons [of d a "b # es"] getAllFiles_Cons [of d b es]
        getAllFiles_Cons [of d b "a # es"] getAllFiles_Cons [of d a es]
      by simp
  qed
next
  case (reorder_trans es fs gs)
  then show ?case by simp
next
  case same_File
  show ?case by simp
next
  case (same_Dir es fs)
  then show ?case by simp
qed

lemma appendAll_readable:
  assumes "\<forall>p \<in> set (map fst ps). contents fs p = Some (bytes p)"
  shows "appendAll fs ps
         = Inr (map (\<lambda>f. \<lparr>entryName = snd f, entryData = bytes (fst f), entryDate = 0\<rparr>) ps)"
  using assms by (induction ps) (auto simp: Date_def)

lemma archiveEntries_readable:
  assumes "\<forall>p \<in> set (getAllFiles inputDirPath listing []) \<union> set shimFiles. contents fs p = Some (bytes p)"
    and "shimFiles = (case include of None \<Rightarrow> [] | Some inc \<Rightarrow> inc)"
  shows "archiveEntries fs inputDirPath listing include
         = Inr (map (\<lambda>p. \<lparr>entryName = replace inputDirPath [] p, entryData = bytes p, entryDate = 0\<rparr>)
                  (sort (getAllFiles inputDirPath listing []))
                @ map (\<lambda>p. \<lparr>entryName = basename p, entryData = bytes p, entryDate = 0\<rparr>) shimFiles)"
proof -
  have "\<forall>p \<in> set (map fst (sourceFiles inputDirPath listing @ includeFiles include)).
          contents fs p = Some (bytes p)"
    using assms by (auto simp: sourceFiles_def includeFiles_def split: option.splits)
  from appendAll_readable [OF this] show ?thesis
    using assms(2)
    by (simp add: archiveEntries_def sourceFiles_def includeFiles_def comp_def split: option.splits)
qed

lemma packDir_exclude_ignored:
  "packDir arch fs inputDirPath outputFilePath include exclude
     = packDir arch fs inputDirPath outputFilePath include exclude'"
  by (simp add: packDir_def Let_def)

text \<open>
  C1. Packaging is deterministic and independent of the enumeration order of directory
  entries. Take two runs of \<open>packDir\<close>: the source directory is listed in two enumeration
  orders, every source file and every shim delivers the same bytes in both (the second
  run may follow the first on the file system the first left), and the two output paths
  have the same valid format and can be opened. Then both runs succeed and both write the
  archive of one and the same sequence of entries: the source files in sorted order of
  their paths, named by the path with \<open>inputDirPath\<close> taken out, then the shimFiles in the
  order given, named by their base names, each entry with its file's bytes and the epoch
  as its date. So the two artifacts are the same bytes and have the same digest, for any
  digest function.
\<close>

theorem packDir_deterministic:
  assumes "reorder t1 t2"
    and "dirs fs1 inputDirPath = Some t1"
    and "dirs fs2 inputDirPath = Some t2"
    and "shimFiles = (case include of None \<Rightarrow> [] | Some inc \<Rightarrow> inc)"
    and "\<forall>p \<in> set (getAllFiles inputDirPath t1 []) \<union> set shimFiles.
           contents fs1 p = Some (bytes p) \<and> contents fs2 p = Some (bytes p)"
    and "format = ''zip'' \<or> format = ''tar''"
    and "last (split CHR ''.'' out1) = format"
    and "last (split CHR ''.'' out2) = format"
    and "writable fs1 out1"
    and "writable fs2 out2"
    and "entries = map (\<lambda>p. \<lparr>entryName = replace inputDirPath [] p, entryData = bytes p, entryDate = 0\<rparr>)
                     (sort (getAllFiles inputDirPath t1 []))
                   @ map (\<lambda>p. \<lparr>entryName = basename p, entryData = bytes p, entryDate = 0\<rparr>) shimFiles"
  shows "result (packDir arch fs1 inputDirPath out1 include exclude) = Inr out1
       \<and> result (packDir arch fs2 inputDirPath out2 include exclude) = Inr out2
       \<and> contents (fs_after (packDir arch fs1 inputDirPath out1 include exclude)) out1
           = Some (arch format entries)
       \<and> contents (fs_after (packDir arch fs2 inputDirPath out2 include exclude)) out2
           = Some (arch format entries)
       \<and> map_option digest (contents (fs_after (packDir arch fs1 inputDirPath out1 include exclude)) out1)
           = map_option digest (contents (fs_after (packDir arch fs2 inputDirPath out2 include exclude)) out2)"
proof -
  have walk: "sort (getAllFiles inputDirPath t1 []) = sort (getAllFiles inputDirPath t2 [])"
    using reorder_mset assms(1) by (intro properties_for_sort) simp_all
  have same: "set (getAllFiles inputDirPath t2 []) = set (getAllFiles inputDirPath t1 [])"
    using reorder_mset assms(1) by (metis mset_eq_setD)
  have e1: "archiveEntries fs1 inputDirPath t1 include = Inr entries"
    unfolding assms(11) using assms(5) by (intro archiveEntries_readable assms(4)) simp
  have e2: "archiveEntries fs2 inputDirPath t2 include = Inr entries"
    unfolding assms(11) walk using assms(5) same by (intro archiveEntries_readable assms(4)) simp
  have valid: "isValidFormat format"
    using assms(6) by (auto simp: isValidFormat_def VALID_FORMATS_def)
  have o1: "result (packDir arch fs1 inputDirPath out1 include exclude) = Inr out1
            \<and> contents (fs_after (packDir arch fs1 inputDirPath out1 include exclude)) out1
                = Some (arch format entries)"
    using assms(2,7,9) e1 valid by (simp add: packDir_def Let_def)
  have o2: "result (packDir arch fs2 inputDirPath out2 include exclude) = Inr out2
            \<and> contents (fs_after (packDir arch fs2 inputDirPath out2 include exclude)) out2
                = Some (arch format entries)"
    using assms(3,8,10) e2 valid by (simp add: packDir_def Let_def)
  show ?thesis using o1 o2 by simp
qed

lemmas pack_eval = pack_def packDir_def join_def intercalate_def normalize_path_def
  isValidFormat_def VALID_FORMATS_def sourceFiles_def archiveEntries_def includeFiles_def
  Date_def Let_def

theorem packDir_deterministic_witness:
  "reorder [(''b.js'', File), (''lib'', Dir [(''y.js'', File), (''x.js'', File)])]
           [(''lib'', Dir [(''x.js'', File), (''y.js'', File)]), (''b.js'', File)]
   \<and> result (packDir sample_archiver
         (sample_fs [(''b.js'', File), (''lib'', Dir [(''y.js'', File), (''x.js'', File)])])
         ''/app'' ''/tmp/a.zip'' (Some [''/shim.js'']) (Some []))
     = Inr ''/tmp/a.zip''
   \<and> contents (fs_after (packDir sample_archiver
         (sample_fs [(''b.js'', File), (''lib'', Dir [(''y.js'', File), (''x.js'', File)])])
         ''/app'' ''/tmp/a.zip'' (Some [''/shim.js'']) (Some []))) ''/tmp/a.zip''
     = Some ''zip:/b.js=B:/lib/x.js=X:/lib/y.js=Y:shim.js=S''
   \<and> result (packDir sample_archiver
         ((fs_after (packDir sample_archiver
             (sample_fs [(''b.js'', File), (''lib'', Dir [(''y.js'', File), (''x.js'', File)])])
             ''/app'' ''/tmp/a.zip'' (Some [''/shim.js'']) (Some [])))
          \<lparr>dirs := [''/app'' \<mapsto> [(''lib'', Dir [(''x.js'', File), (''y.js'', File)]), (''b.js'', File)]]\<rparr>)
         ''/app'' ''/tmp/b.zip'' (Some [''/shim.js'']) (Some []))
     = Inr ''/tmp/b.zip''
   \<and> contents (fs_after (packDir sample_archiver
         ((fs_after (packDir sample_archiver
             (sample_fs [(''b.js'', File), (''lib'', Dir [(''y.js'', File), (''x.js'', File)])])
             ''/app'' ''/tmp/a.zip'' (Some [''/shim.js'']) (Some [])))
          \<lparr>dirs := [''/app'' \<mapsto> [(''lib'', Dir [(''x.js'', File), (''y.js'', File)]), (''b.js'', File)]]\<rparr>)
         ''/app'' ''/tmp/b.zip'' (Some [''/shim.js'']) (Some []))) ''/tmp/b.zip''
     = Some ''zip:/b.js=B:/lib/x.js=X:/lib/y.js=Y:shim.js=S''"
proof -
  let ?A = "[(''b.js'', File), (''lib'', Dir [(''y.js'', File), (''x.js'', File)])]"
  let ?B = "[(''lib'', Dir [(''x.js'', File), (''y.js'', File)]), (''b.js'', File)]"
  let ?fs1 = "sample_fs ?A"
  let ?fs2 = "(fs_after (packDir sample_archiver ?fs1 ''/app'' ''/tmp/a.zip'' (Some [''/shim.js'']) (Some [])))
                \<lparr>dirs := [''/app'' \<mapsto> ?B]\<rparr>"
  let ?bytes = "\<lambda>p. case contents ?fs1 p of None \<Rightarrow> [] | Some b \<Rightarrow> b"
  have inner: "reorder [(''y.js'', File), (''x.js'', File)] [(''x.js'', File), (''y.js'', File)]"
    by (rule reorder_swap)
  have rest: "reorder [(''b.js'', File)] [(''b.js'', File)]"
    by (intro reorder_Cons same_File reorder_Nil)
  have "reorder [(''lib'', Dir [(''y.js'', File), (''x.js'', File)]), (''b.js'', File)] ?B"
    by (rule reorder_Cons [OF same_Dir [OF inner] rest])
  moreover have "reorder ?A [(''lib'', Dir [(''y.js'', File), (''x.js'', File)]), (''b.js'', File)]"
    by (rule reorder_swap)
  ultimately have r: "reorder ?A ?B"
    using reorder_trans by blast
  have after: "fs_after (packDir sample_archiver ?fs1 ''/app'' ''/tmp/a.zip'' (Some [''/shim.js'']) (Some []))
                 = ?fs1\<lparr>contents := (contents ?fs1)(''/tmp/a.zip'' \<mapsto> ''zip:/b.js=B:/lib/x.js=X:/lib/y.js=Y:shim.js=S'')\<rparr>"
    by (simp add: pack_eval basename_def sample_fs_def sample_archiver_def)
  have d1: "dirs ?fs1 ''/app'' = Some ?A"
    by (simp add: sample_fs_def)
  have d2: "dirs ?fs2 ''/app'' = Some ?B"
    by simp
  have s: "[''/shim.js''] = (case Some [''/shim.js''] of None \<Rightarrow> [] | Some inc \<Rightarrow> inc)"
    by simp
  have files: "getAllFiles ''/app'' ?A [] = [''/app/b.js'', ''/app/lib/y.js'', ''/app/lib/x.js'']"
    by (simp add: join_def intercalate_def normalize_path_def)
  have c: "\<forall>p \<in> set (getAllFiles ''/app'' ?A []) \<union> set [''/shim.js''].
             contents ?fs1 p = Some (?bytes p) \<and> contents ?fs2 p = Some (?bytes p)"
    unfolding files after by (simp add: sample_fs_def)
  have f: "''zip'' = ''zip'' \<or> ''zip'' = ''tar''"
    by simp
  have f1: "last (split CHR ''.'' ''/tmp/a.zip'') = ''zip''"
    by simp
  have f2: "last (split CHR ''.'' ''/tmp/b.zip'') = ''zip''"
    by simp
  have w1: "writable ?fs1 ''/tmp/a.zip''"
    by (simp add: sample_fs_def)
  have w2: "writable ?fs2 ''/tmp/b.zip''"
    unfolding after by (simp add: sample_fs_def)
  have es: "sample_archiver ''zip''
              (map (\<lambda>p. \<lparr>entryName = replace ''/app'' [] p, entryData = ?bytes p, entryDate = 0\<rparr>)
                 (sort (getAllFiles ''/app'' ?A []))
               @ map (\<lambda>p. \<lparr>entryName = basename p, entryData = ?bytes p, entryDate = 0\<rparr>) [''/shim.js''])
            = ''zip:/b.js=B:/lib/x.js=X:/lib/y.js=Y:shim.js=S''"
    unfolding files by (simp add: sample_archiver_def basename_def sample_fs_def)
  show ?thesis
    using r packDir_deterministic [OF r d1 d2 s c f f1 f2 w1 w2 refl, of sample_archiver "Some []"]
    unfolding es by blast
qed

text \<open>
  C4. The exclude patterns have no effect: \<open>pack\<close> with dependency packaging switched off
  still puts the file under \<open>node_modules\<close> into the archive (for any archiver, written
  \<open>arch\<close>).
\<close>

theorem pack_keeps_node_modules:
  "contents (fs_after (pack (sample_host\<lparr>archiver := arch\<rparr>)
       (sample_fs [(''index.js'', File), (''node_modules'', Dir [(''dep.js'', File)])])
       ''/app'' (Some []) False)) ''/tmp/o82mvyr.zip''
   = Some (arch ''zip''
       [\<lparr>entryName = ''/index.js'', entryData = ''I'', entryDate = 0\<rparr>,
        \<lparr>entryName = ''/node_modules/dep.js'', entryData = ''D'', entryDate = 0\<rparr>])"
  by (simp add: pack_eval sample_host_def sample_fs_def)

text \<open>
  C9. When the segment of the output path after its last dot is neither \<open>zip\<close> nor
  \<open>tar\<close>, \<open>packDir\<close> fails with the format error and has performed no I/O: no directory
  was read, no stream was opened, and the file system is unchanged.
\<close>

theorem packDir_rejects_invalid_format:
  assumes "last (split CHR ''.'' outputFilePath) \<noteq> ''zip''"
    and "last (split CHR ''.'' outputFilePath) \<noteq> ''tar''"
  shows "packDir arch fs inputDirPath outputFilePath include exclude
           = \<lparr>io = [],
              result = Inl (Error ''Please provide a valid format. Either a \"zip\" or a \"tar\"''),
              fs_after = fs\<rparr>"
  using assms by (simp add: packDir_def isValidFormat_def VALID_FORMATS_def)

theorem packDir_rejects_invalid_format_witness:
  "last (split CHR ''.'' ''/tmp/out.rar'') \<noteq> ''zip''
   \<and> last (split CHR ''.'' ''/tmp/out.rar'') \<noteq> ''tar''
   \<and> packDir sample_archiver (sample_fs [(''b.js'', File)]) ''/app'' ''/tmp/out.rar'' (Some []) (Some [])
       = \<lparr>io = [],
          result = Inl (Error ''Please provide a valid format. Either a \"zip\" or a \"tar\"''),
          fs_after = sample_fs [(''b.js'', File)]\<rparr>"
proof -
  have h1: "last (split CHR ''.'' ''/tmp/out.rar'') \<noteq> ''zip''" by simp
  have h2: "last (split CHR ''.'' ''/tmp/out.rar'') \<noteq> ''tar''" by simp
  show ?thesis
    using h1 h2 packDir_rejects_invalid_format [OF h1 h2] by simp
qed

section \<open>Properties of the backend calls\<close>

declare waitLoop.simps [simp del]

lemma waitLoop_step:
  assumes "pending_at lambda fnName (elapsed, tr)"
  shows "waitLoop lambda fnName pollInterval elapsed tr
         = waitLoop lambda fnName pollInterval
             (fst (poll_step lambda fnName pollInterval (elapsed, tr)))
             (snd (poll_step lambda fnName pollInterval (elapsed, tr)))"
  using assms
  by (subst waitLoop.simps) (auto simp: pending_at_def poll_step_def split: sum.splits)

lemma after_polls_front:
  "after_polls lambda fnName pollInterval (Suc k) st
     = after_polls lambda fnName pollInterval k (poll_step lambda fnName pollInterval st)"
  by (induction k) auto

lemma waitLoop_skip:
  assumes "\<forall>j<k. pending_at lambda fnName (after_polls lambda fnName pollInterval j (elapsed, tr))"
  shows "waitLoop lambda fnName pollInterval elapsed tr
         = waitLoop lambda fnName pollInterval
             (fst (after_polls lambda fnName pollInterval k (elapsed, tr)))
             (snd (after_polls lambda fnName pollInterval k (elapsed, tr)))"
  using assms
proof (induction k arbitrary: elapsed tr)
  case 0
  show ?case by simp
next
  case (Suc k)
  let ?st = "poll_step lambda fnName pollInterval (elapsed, tr)"
  have first: "pending_at lambda fnName (elapsed, tr)"
    using Suc.prems by (metis after_polls.simps(1) zero_less_Suc)
  have later: "\<forall>j<k. pending_at lambda fnName (after_polls lambda fnName pollInterval j (fst ?st, snd ?st))"
  proof (intro allI impI)
    fix j assume "j < k"
    then have "pending_at lambda fnName (after_polls lambda fnName pollInterval (Suc j) (elapsed, tr))"
      using Suc.prems by (simp del: after_polls.simps)
    then show "pending_at lambda fnName (after_polls lambda fnName pollInterval j (fst ?st, snd ?st))"
      by (simp only: after_polls_front prod.collapse)
  qed
  have "waitLoop lambda fnName pollInterval elapsed tr
          = waitLoop lambda fnName pollInterval (fst ?st) (snd ?st)"
    using first by (rule waitLoop_step)
  also have "\<dots> = waitLoop lambda fnName pollInterval
             (fst (after_polls lambda fnName pollInterval k (fst ?st, snd ?st)))
             (snd (after_polls lambda fnName pollInterval k (fst ?st, snd ?st)))"
    using later by (rule Suc.IH)
  also have "after_polls lambda fnName pollInterval k (fst ?st, snd ?st)
               = after_polls lambda fnName pollInterval (Suc k) (elapsed, tr)"
    by (simp only: after_polls_front prod.collapse)
  finally show ?case .
qed

lemma after_polls_elapsed: "fst st + k \<le> fst (after_polls lambda fnName pollInterval k st)"
  by (induction k) (auto simp: poll_step_def)

text \<open>The loop always stops: some poll finds the loop no longer pending.\<close>

lemma stops: "\<exists>k \<le> waitDurationMillis. \<not> pending_at lambda fnName (after_polls lambda fnName pollInterval k (0, tr))"
proof -
  have "waitDurationMillis \<le> fst (after_polls lambda fnName pollInterval waitDurationMillis (0, tr))"
    using after_polls_elapsed [of "(0, tr)" waitDurationMillis lambda fnName pollInterval] by simp
  then have "\<not> pending_at lambda fnName (after_polls lambda fnName pollInterval waitDurationMillis (0, tr))"
    by (simp add: pending_at_def)
  then show ?thesis by blast
qed

lemma after_polls_trace:
  "snd (after_polls lambda fnName pollInterval k (elapsed, tr))
     = tr @ concat (replicate k [Call GetFunction (empty_aws\<lparr>FunctionName := fnName\<rparr>),
                                 SetTimeout pollInterval])"
proof (induction k)
  case 0
  show ?case by simp
next
  case (Suc k)
  have "replicate (Suc k) [Call GetFunction (empty_aws\<lparr>FunctionName := fnName\<rparr>), SetTimeout pollInterval]
          = replicate k [Call GetFunction (empty_aws\<lparr>FunctionName := fnName\<rparr>), SetTimeout pollInterval]
            @ [[Call GetFunction (empty_aws\<lparr>FunctionName := fnName\<rparr>), SetTimeout pollInterval]]"
    by (metis replicate_Suc replicate_append_same)
  then show ?case
    using Suc.IH by (simp add: poll_step_def del: replicate_Suc)
qed

lemma waitUntilReady_never_ready:
  assumes "\<forall>tr'. \<exists>Configuration. respond lambda tr' GetFunction (empty_aws\<lparr>FunctionName := fnName\<rparr>)
                      = Inr Configuration \<and> \<not> ready Configuration"
  shows "snd (waitLoop lambda fnName pollInterval 0 tr) = Inr False"
proof -
  let ?P = "\<lambda>k. \<not> pending_at lambda fnName (after_polls lambda fnName pollInterval k (0, tr))"
  have "\<exists>k. ?P k" using stops by blast
  then obtain k where k: "?P k" and least: "\<forall>j<k. \<not> ?P j"
    using exists_least_iff [of ?P] by blast
  let ?st = "after_polls lambda fnName pollInterval k (0, tr)"
  have skip: "waitLoop lambda fnName pollInterval 0 tr = waitLoop lambda fnName pollInterval (fst ?st) (snd ?st)"
    using least by (intro waitLoop_skip) simp
  obtain c where c: "respond lambda (snd ?st) GetFunction (empty_aws\<lparr>FunctionName := fnName\<rparr>) = Inr c"
      "\<not> ready c"
    using assms by blast
  have "\<not> fst ?st < waitDurationMillis"
    using k c by (simp add: pending_at_def)
  then show ?thesis
    unfolding skip by (subst waitLoop.simps) simp
qed

text \<open>
  C8. The readiness waiter. Let \<open>interval\<close> be the poll interval (5000 ms when the caller
  gives none), and suppose the first \<open>k\<close> polls each began before 600000 ms had elapsed and
  found the function not ready. Then the trace so far is \<open>k\<close> times a \<open>getFunction\<close> call
  followed by a timer of the same \<open>interval\<close>, and:
  if the next poll begins in time and observes \<open>Active\<close> and \<open>Successful\<close>, the waiter returns
  \<open>true\<close> right after that call; if 600000 ms or more have elapsed, it returns \<open>false\<close>
  without a further call. Against a backend that never reports the function ready it
  returns \<open>false\<close>, not an error.
\<close>

theorem waitUntilReady_polls:
  assumes "interval = (case pollInterval of None \<Rightarrow> 5000 | Some ms \<Rightarrow> ms)"
    and "\<forall>j<k. pending_at lambda fnName (after_polls lambda fnName interval j (0, tr))"
    and "polled = tr @ concat (replicate k [Call GetFunction (empty_aws\<lparr>FunctionName := fnName\<rparr>),
                                            SetTimeout interval])"
  shows "(fst (after_polls lambda fnName interval k (0, tr)) < waitDurationMillis
           \<and> (\<exists>Configuration. respond lambda polled GetFunction (empty_aws\<lparr>FunctionName := fnName\<rparr>)
                                  = Inr Configuration \<and> ready Configuration)
          \<longrightarrow> waitUntilReady lambda tr fnName pollInterval
                = (polled @ [Call GetFunction (empty_aws\<lparr>FunctionName := fnName\<rparr>)], Inr True))
       \<and> (waitDurationMillis \<le> fst (after_polls lambda fnName interval k (0, tr))
          \<longrightarrow> waitUntilReady lambda tr fnName pollInterval = (polled, Inr False))
       \<and> ((\<forall>tr'. \<exists>Configuration. respond lambda tr' GetFunction (empty_aws\<lparr>FunctionName := fnName\<rparr>)
                      = Inr Configuration \<and> \<not> ready Configuration)
          \<longrightarrow> snd (waitUntilReady lambda tr fnName pollInterval) = Inr False)"
proof -
  let ?st = "after_polls lambda fnName interval k (0, tr)"
  have tr: "snd ?st = polled"
    using assms(3) by (simp add: after_polls_trace)
  have skip: "waitUntilReady lambda tr fnName pollInterval = waitLoop lambda fnName interval (fst ?st) polled"
    unfolding waitUntilReady_def assms(1) [symmetric] tr [symmetric]
    using assms(2) by (rule waitLoop_skip)
  have t: "fst ?st < waitDurationMillis
           \<and> (\<exists>Configuration. respond lambda polled GetFunction (empty_aws\<lparr>FunctionName := fnName\<rparr>)
                                  = Inr Configuration \<and> ready Configuration)
          \<longrightarrow> waitUntilReady lambda tr fnName pollInterval
                = (polled @ [Call GetFunction (empty_aws\<lparr>FunctionName := fnName\<rparr>)], Inr True)"
    unfolding skip by (subst waitLoop.simps) auto
  have f: "waitDurationMillis \<le> fst ?st
          \<longrightarrow> waitUntilReady lambda tr fnName pollInterval = (polled, Inr False)"
    unfolding skip by (subst waitLoop.simps) auto
  have n: "(\<forall>tr'. \<exists>Configuration. respond lambda tr' GetFunction (empty_aws\<lparr>FunctionName := fnName\<rparr>)
                      = Inr Configuration \<and> \<not> ready Configuration)
          \<longrightarrow> snd (waitUntilReady lambda tr fnName pollInterval) = Inr False"
    unfolding waitUntilReady_def using waitUntilReady_never_ready by blast
  show ?thesis using t f n by blast
qed

lemmas wait_eval = scripted_def ready_def waitDurationMillis_def pending_at_def poll_step_def
  empty_aws_def

theorem waitUntilReady_polls_witness:
  "waitUntilReady (scripted (\<lambda>a. Inr empty_aws) (Some 4) 100) [] (Some ''f'') None
     = ([Call GetFunction (empty_aws\<lparr>FunctionName := Some ''f''\<rparr>), SetTimeout 5000,
         Call GetFunction (empty_aws\<lparr>FunctionName := Some ''f''\<rparr>), SetTimeout 5000,
         Call GetFunction (empty_aws\<lparr>FunctionName := Some ''f''\<rparr>)], Inr True)
   \<and> waitUntilReady (scripted (\<lambda>a. Inr empty_aws) None 300000) [] (Some ''f'') (Some 1000)
     = ([Call GetFunction (empty_aws\<lparr>FunctionName := Some ''f''\<rparr>), SetTimeout 1000,
         Call GetFunction (empty_aws\<lparr>FunctionName := Some ''f''\<rparr>), SetTimeout 1000], Inr False)
   \<and> snd (waitUntilReady (scripted (\<lambda>a. Inr empty_aws) None 300000) [] (Some ''f'') (Some 1000))
     = Inr False"
proof -
  let ?p = "empty_aws\<lparr>FunctionName := Some ''f''\<rparr>"
  let ?fast = "scripted (\<lambda>a. Inr empty_aws) (Some 4) 100"
  let ?slow = "scripted (\<lambda>a. Inr empty_aws) None 300000"
  have i1: "(5000::nat) = (case None of None \<Rightarrow> 5000 | Some ms \<Rightarrow> ms)" by simp
  have p1: "\<forall>j<Suc (Suc 0). pending_at ?fast (Some ''f'') (after_polls ?fast (Some ''f'') 5000 j (0, []))"
    by (simp add: All_less_Suc wait_eval)
  have t1: "[Call GetFunction ?p, SetTimeout 5000, Call GetFunction ?p, SetTimeout 5000]
              = [] @ concat (replicate (Suc (Suc 0)) [Call GetFunction ?p, SetTimeout 5000])"
    by simp
  have a1: "fst (after_polls ?fast (Some ''f'') 5000 (Suc (Suc 0)) (0, [])) < waitDurationMillis
            \<and> (\<exists>Configuration. respond ?fast
                  [Call GetFunction ?p, SetTimeout 5000, Call GetFunction ?p, SetTimeout 5000]
                  GetFunction ?p = Inr Configuration \<and> ready Configuration)"
    by (simp add: wait_eval)
  have i2: "(1000::nat) = (case Some 1000 of None \<Rightarrow> 5000 | Some ms \<Rightarrow> ms)" by simp
  have p2: "\<forall>j<Suc (Suc 0). pending_at ?slow (Some ''f'') (after_polls ?slow (Some ''f'') 1000 j (0, []))"
    by (simp add: All_less_Suc wait_eval)
  have t2: "[Call GetFunction ?p, SetTimeout 1000, Call GetFunction ?p, SetTimeout 1000]
              = [] @ concat (replicate (Suc (Suc 0)) [Call GetFunction ?p, SetTimeout 1000])"
    by simp
  have a2: "waitDurationMillis \<le> fst (after_polls ?slow (Some ''f'') 1000 (Suc (Suc 0)) (0, []))"
    by (simp add: wait_eval)
  have n2: "\<forall>tr'. \<exists>Configuration. respond ?slow tr' GetFunction ?p = Inr Configuration
                      \<and> \<not> ready Configuration"
    by (simp add: wait_eval)
  have r1: "waitUntilReady ?fast [] (Some ''f'') None
              = ([Call GetFunction ?p, SetTimeout 5000, Call GetFunction ?p, SetTimeout 5000]
                   @ [Call GetFunction ?p], Inr True)"
    using waitUntilReady_polls [OF i1 p1 t1] a1 by blast
  have r2: "waitUntilReady ?slow [] (Some ''f'') (Some 1000)
              = ([Call GetFunction ?p, SetTimeout 1000, Call GetFunction ?p, SetTimeout 1000], Inr False)"
    using waitUntilReady_polls [OF i2 p2 t2] a2 by blast
  have r3: "snd (waitUntilReady ?slow [] (Some ''f'') (Some 1000)) = Inr False"
    using waitUntilReady_polls [OF i2 p2 t2] n2 by blast
  show ?thesis
    using r1 r2 r3 by simp
qed

text \<open>
  C7. Classified backend errors are absorbed, the others surface. When the read of the
  remote state fails, \<open>getLambda\<close> returns \<open>null\<close> for the code
  \<open>ResourceNotFoundException\<close> and throws the error otherwise. When the delete call fails,
  \<open>deleteLambda\<close> returns normally for \<open>ResourceNotFoundException\<close> and throws the error
  otherwise. When the alias creation fails, \<open>createAlias\<close> returns normally for
  \<open>ResourceConflictException\<close> and otherwise throws an \<open>Error\<close> made from the error caught.
\<close>

theorem classified_errors:
  "(respond lambda tr GetFunctionConfiguration (empty_aws\<lparr>FunctionName := fnName\<rparr>) = Inl e \<longrightarrow>
      snd (getLambda lambda tr fnName)
        = (if error_code e = Some ''ResourceNotFoundException'' then Inr None else Inl e))
   \<and> (respond lambda tr DeleteFunction (empty_aws\<lparr>FunctionName := fnName\<rparr>) = Inl e \<longrightarrow>
      snd (deleteLambda lambda tr fnName)
        = (if error_code e = Some ''ResourceNotFoundException'' then Inr () else Inl e))
   \<and> (respond lambda tr CreateAlias
          (empty_aws\<lparr>FunctionName := name state, Name := aliasName, FunctionVersion := version\<rparr>) = Inl e \<longrightarrow>
      snd (createAlias lambda tr state aliasName version)
        = (if error_code e = Some ''ResourceConflictException'' then Inr ()
           else Inl (Error (error_string e))))"
  by (simp add: getLambda_def deleteLambda_def createAlias_def call_def)

theorem classified_errors_witness:
  "snd (getLambda (scripted (\<lambda>a. Inl (AwsError (Some ''ResourceNotFoundException'') ''Function not found'')) None 0)
          [] (Some ''f'')) = Inr None
   \<and> snd (deleteLambda (scripted (\<lambda>a. Inl (AwsError (Some ''ResourceNotFoundException'') ''Function not found'')) None 0)
          [] (Some ''f'')) = Inr ()
   \<and> snd (createAlias (scripted (\<lambda>a. Inl (AwsError (Some ''ResourceNotFoundException'') ''Function not found'')) None 0)
          [] (empty_obj\<lparr>name := Some ''f''\<rparr>) (Some ''live'') (Some ''1''))
       = Inl (Error ''ResourceNotFoundException: Function not found'')
   \<and> snd (getLambda (scripted (\<lambda>a. Inl (AwsError (Some ''ResourceConflictException'') ''Alias already exists'')) None 0)
          [] (Some ''f'')) = Inl (AwsError (Some ''ResourceConflictException'') ''Alias already exists'')
   \<and> snd (deleteLambda (scripted (\<lambda>a. Inl (AwsError (Some ''ResourceConflictException'') ''Alias already exists'')) None 0)
          [] (Some ''f'')) = Inl (AwsError (Some ''ResourceConflictException'') ''Alias already exists'')
   \<and> snd (createAlias (scripted (\<lambda>a. Inl (AwsError (Some ''ResourceConflictException'') ''Alias already exists'')) None 0)
          [] (empty_obj\<lparr>name := Some ''f''\<rparr>) (Some ''live'') (Some ''1'')) = Inr ()"
proof -
  let ?nf = "AwsError (Some ''ResourceNotFoundException'') ''Function not found''"
  let ?cf = "AwsError (Some ''ResourceConflictException'') ''Alias already exists''"
  have nf: "\<And>a p. a \<noteq> GetFunction \<Longrightarrow> respond (scripted (\<lambda>a. Inl ?nf) None 0) [] a p = Inl ?nf"
    by (simp add: scripted_def)
  have cf: "\<And>a p. a \<noteq> GetFunction \<Longrightarrow> respond (scripted (\<lambda>a. Inl ?cf) None 0) [] a p = Inl ?cf"
    by (simp add: scripted_def)
  show ?thesis
    using classified_errors [where lambda = "scripted (\<lambda>a. Inl ?nf) None 0" and tr = "[]"
            and fnName = "Some ''f''" and e = ?nf and state = "empty_obj\<lparr>name := Some ''f''\<rparr>"
            and aliasName = "Some ''live''" and version = "Some ''1''"]
          classified_errors [where lambda = "scripted (\<lambda>a. Inl ?cf) None 0" and tr = "[]"
            and fnName = "Some ''f''" and e = ?cf and state = "empty_obj\<lparr>name := Some ''f''\<rparr>"
            and aliasName = "Some ''live''" and version = "Some ''1''"]
    by (simp add: nf cf empty_obj_def)
qed

section \<open>Properties of the component\<close>

lemma pack_sample: "pack sample_host (sample_fs [(''index.js'', File)]) ''/app'' (Some []) True
  = \<lparr>io = [ReadDir ''/app'', StatSync ''/app/index.js'', ConsoleLog, CreateWriteStream ''/tmp/o82mvyr.zip'', CreateReadStream ''/app/index.js''],
     result = Inr ''/tmp/o82mvyr.zip'',
     fs_after = packed_fs\<rparr>"
  by (simp add: pack_eval sample_host_def sample_fs_def sample_archiver_def packed_fs_def)

lemma prepare_sample:
  "prepare sample_host (sample_fs [(''index.js'', File)]) empty_obj empty_obj = Inr (sample_config, packed_fs)"
proof -
  have h: "isArchivePath sample_host = (\<lambda>p. False)" "cwd sample_host = ''/app''"
    "resourceId sample_host = ''fn-1''" "hashFile sample_host = (\<lambda>bytes. ''sha256:'' @ bytes)"
    "awsIamRole sample_host = (\<lambda>r reg. Inr \<lparr>role_arn = Some ''arn:aws:iam::1:role/r'', role_name = Some ''r'',
                                    service = Some ''lambda.amazonaws.com''\<rparr>)"
    by (simp_all add: sample_host_def)
  have c: "contents packed_fs ''/tmp/o82mvyr.zip'' = Some ''zip:/index.js=I''"
    by (simp add: packed_fs_def)
  show ?thesis
    by (simp add: prepare_def mergeDeepRight_def defaults_def empty_obj_def right_def deep_def truthy_def
        h pack_sample c sample_config_def)
qed

lemma prepare_props:
  assumes "prepare h fs state inputs = Inr (config, fs')"
  shows "(\<exists>a. role config = Some \<lparr>role_arn = a, role_name = None, service = None\<rparr>)
       \<and> (\<exists>p bytes. zipPath config = Some p \<and> contents fs' p = Some bytes
                      \<and> hash config = Some (hashFile h bytes))
       \<and> (truthy (name state) \<longrightarrow> name config = name state)
       \<and> architectures config \<noteq> None
       \<and> architecture config = architecture inputs
       \<and> bucket config = bucket inputs"
proof -
  define cfg0 where "cfg0 = (mergeDeepRight (defaults h) inputs)
      \<lparr>name := (if truthy (name state) then name state
                else if truthy (name inputs) then name inputs
                else Some (resourceId h))\<rparr>"
  have cfg0: "truthy (name state) \<longrightarrow> name cfg0 = name state" "architectures cfg0 \<noteq> None"
      "architecture cfg0 = architecture inputs" "bucket cfg0 = bucket inputs"
    by (simp_all add: cfg0_def mergeDeepRight_def defaults_def empty_obj_def right_def
          split: option.splits)
  show ?thesis
    using assms cfg0 unfolding prepare_def Let_def cfg0_def [symmetric]
    by (auto split: sum.splits option.splits)
qed

lemma configChanged_fields:
  assumes "role lambda = Some r"
  shows "configChanged prevLambda lambda
         = Inr (\<not> (description lambda = description prevLambda
                   \<and> runtime lambda = runtime prevLambda
                   \<and> Some \<lparr>role_arn = role_arn r, role_name = None, service = None\<rparr> = role prevLambda
                   \<and> handler lambda = handler prevLambda
                   \<and> memory lambda = memory prevLambda
                   \<and> timeout lambda = timeout prevLambda
                   \<and> env lambda = env prevLambda
                   \<and> hash lambda = hash prevLambda))"
  using assms by (auto simp: configChanged_def pick_keys_def empty_obj_def Let_def)

lemma getLambda_found:
  assumes "getLambda lambda tr fnName = (tr', Inr (Some prevLambda))"
  shows "tr' = tr @ [Call GetFunctionConfiguration (empty_aws\<lparr>FunctionName := fnName\<rparr>)]
       \<and> architectures prevLambda = None
       \<and> (\<exists>a. role prevLambda = Some \<lparr>role_arn = a, role_name = None, service = None\<rparr>)"
  using assms
  by (auto simp: getLambda_def call_def empty_obj_def split: sum.splits if_splits)

lemma getLambda_absent:
  assumes "getLambda lambda tr fnName = (tr', Inr None)"
  shows "\<exists>e. respond lambda tr GetFunctionConfiguration (empty_aws\<lparr>FunctionName := fnName\<rparr>) = Inl e
           \<and> error_code e = Some ''ResourceNotFoundException''"
  using assms by (auto simp: getLambda_def call_def split: sum.splits if_splits)

lemma getLambda_trace:
  "fst (getLambda lambda tr fnName) = tr @ [Call GetFunctionConfiguration (empty_aws\<lparr>FunctionName := fnName\<rparr>)]"
  by (simp add: getLambda_def call_def split: sum.splits)

lemma getLambda_scripted:
  "getLambda (scripted answers r ms) [] fnName
     = ([Call GetFunctionConfiguration (empty_aws\<lparr>FunctionName := fnName\<rparr>)],
        case answers GetFunctionConfiguration of
          Inr res \<Rightarrow> Inr (Some (observed_of res))
        | Inl e \<Rightarrow> if error_code e = Some ''ResourceNotFoundException'' then Inr None else Inl e)"
  by (simp add: getLambda_def call_def scripted_def observed_of_def split: sum.splits)

lemma empty_neq_upd: "(\<lambda>x. None) \<noteq> m(k \<mapsto> v)"
  by (metis map_upd_nonempty)

lemma not_truthy_empty: "\<not> truthy (name empty_obj)"
  by (simp add: truthy_def empty_obj_def)

lemmas remote_eval = getLambda_def call_def scripted_def sample_remote_def empty_aws_def
  empty_obj_def sample_config_def

lemma default_throws_when_changed:
  assumes p: "prepare h fs state inputs = Inr (config, fs')"
    and g: "getLambda lambda [] (name config) = (tr, Inr (Some prevLambda))"
    and c: "configChanged prevLambda (config\<lparr>arn := arn prevLambda\<rparr>) = Inr True"
  shows "default_deploy h lambda fs state inputs
            = \<lparr>trace = [Call GetFunctionConfiguration (empty_aws\<lparr>FunctionName := name config\<rparr>)],
               returned = Inl (TypeError ''Cannot read properties of undefined (reading '0')''),
               state_after = state\<rparr>"
proof -
  from getLambda_found [OF g] have
      tr: "tr = [Call GetFunctionConfiguration (empty_aws\<lparr>FunctionName := name config\<rparr>)]"
      and none: "architectures prevLambda = None"
    by auto
  have rec: "reconcile lambda fs' [] config
               = (tr, Inl (TypeError ''Cannot read properties of undefined (reading '0')''))"
    by (simp add: reconcile_def evaluate_def g c none Let_def)
  show ?thesis
    by (simp add: default_deploy_def finish_def p rec tr)
qed

lemma waitLoop_polls_only:
  "\<exists>polls. fst (waitLoop lambda fnName pollInterval elapsed tr) = tr @ polls
           \<and> (\<forall>ev \<in> set polls. \<not> mutating ev)"
proof (induction lambda fnName pollInterval elapsed tr rule: waitLoop.induct)
  case (1 lambda fnName pollInterval elapsed tr)
  let ?p = "empty_aws\<lparr>FunctionName := fnName\<rparr>"
  show ?case
  proof (cases "elapsed < waitDurationMillis")
    case False
    then show ?thesis by (subst waitLoop.simps) simp
  next
    case True
    show ?thesis
    proof (cases "respond lambda tr GetFunction ?p")
      case (Inl e)
      with True show ?thesis by (subst waitLoop.simps) simp
    next
      case (Inr Configuration)
      show ?thesis
      proof (cases "ready Configuration")
        case True
        with Inr \<open>elapsed < waitDurationMillis\<close> show ?thesis by (subst waitLoop.simps) simp
      next
        case False
        from "1.IH" [OF \<open>elapsed < waitDurationMillis\<close> Inr False]
        obtain polls where
          "fst (waitLoop lambda fnName pollInterval
                  (elapsed + millis lambda tr GetFunction ?p + max 1 pollInterval)
                  (tr @ [Call GetFunction ?p, SetTimeout pollInterval]))
             = (tr @ [Call GetFunction ?p, SetTimeout pollInterval]) @ polls"
          "\<forall>ev \<in> set polls. \<not> mutating ev"
          by blast
        then have "fst (waitLoop lambda fnName pollInterval elapsed tr)
                     = tr @ ([Call GetFunction ?p, SetTimeout pollInterval] @ polls)
                   \<and> (\<forall>ev \<in> set ([Call GetFunction ?p, SetTimeout pollInterval] @ polls). \<not> mutating ev)"
          using False Inr \<open>elapsed < waitDurationMillis\<close>
          by (subst waitLoop.simps) simp
        then show ?thesis by blast
      qed
    qed
  qed
qed

lemma createLambda_call:
  assumes "role config = Some r"
    and "zipPath config = Some p"
    and "contents fs p = Some bytes"
  shows "\<exists>params. createLambda lambda fs tr config
           = (tr @ [Call CreateFunction params],
              case respond lambda tr CreateFunction params of
                Inl e \<Rightarrow> Inl e
              | Inr res \<Rightarrow> Inr (FunctionArn res, CodeSha256 res))
         \<and> FunctionName params = name config
         \<and> Description params = description config
         \<and> Handler params = handler config
         \<and> MemorySize params = memory config
         \<and> Timeout params = timeout config
         \<and> Runtime params = runtime config
         \<and> Role params = role_arn r
         \<and> Environment params = Some \<lparr>Variables = env config\<rparr>
         \<and> VpcConfig params = vpcConfig config
         \<and> TracingConfig params = tracingConfig config
         \<and> Layers params = layerParams (layer config)
         \<and> Publish params = Some True
         \<and> Code params = Some (if truthy (bucket config)
                                then empty_code\<lparr>S3Bucket := bucket config, S3Key := Some (basename p)\<rparr>
                                else empty_code\<lparr>ZipFile := Some bytes\<rparr>)
         \<and> Architectures params = Some [architecture config]"
  using assms
  by (cases "truthy (bucket config)")
     (simp_all add: createLambda_def codeParams_def call_def Let_def empty_aws_def split: sum.splits)

lemma default_absent_creates:
  assumes prep: "prepare h fs state inputs = Inr (config, fs')"
    and absent: "respond lambda [] GetFunctionConfiguration (empty_aws\<lparr>FunctionName := name config\<rparr>) = Inl e"
      "error_code e = Some ''ResourceNotFoundException''"
  shows "\<exists>params polls.
           trace (default_deploy h lambda fs state inputs)
             = [Call GetFunctionConfiguration (empty_aws\<lparr>FunctionName := name config\<rparr>),
                Call CreateFunction params] @ polls
         \<and> (\<forall>ev \<in> set polls. \<not> mutating ev)
         \<and> FunctionName params = name config
         \<and> Description params = description config
         \<and> Handler params = handler config
         \<and> MemorySize params = memory config
         \<and> Timeout params = timeout config
         \<and> Runtime params = runtime config
         \<and> Some (Role params) = map_option role_arn (role config)
         \<and> Environment params = Some \<lparr>Variables = env config\<rparr>
         \<and> VpcConfig params = vpcConfig config
         \<and> TracingConfig params = tracingConfig config
         \<and> Architectures params = Some [architecture inputs]
         \<and> (\<forall>res out. respond lambda [Call GetFunctionConfiguration (empty_aws\<lparr>FunctionName := name config\<rparr>)]
                          CreateFunction params = Inr res
                      \<and> returned (default_deploy h lambda fs state inputs) = Inr out
               \<longrightarrow> arn out = FunctionArn res \<and> hash out = CodeSha256 res
                   \<and> state_after (default_deploy h lambda fs state inputs) = out)"
proof -
  let ?g = "Call GetFunctionConfiguration (empty_aws\<lparr>FunctionName := name config\<rparr>)"
  from prepare_props [OF prep] obtain a p bytes where
      r: "role config = Some \<lparr>role_arn = a, role_name = None, service = None\<rparr>"
      and z: "zipPath config = Some p" "contents fs' p = Some bytes"
      and n: "truthy (name state) \<longrightarrow> name config = name state"
      and ar: "architecture config = architecture inputs"
    by blast
  have g: "getLambda lambda [] (name config) = ([?g], Inr None)"
    using absent by (simp add: getLambda_def call_def)
  from createLambda_call [OF r z, of lambda "[?g]"] obtain params where
      cl: "createLambda lambda fs' [?g] config
           = ([?g] @ [Call CreateFunction params],
              case respond lambda [?g] CreateFunction params of
                Inl e \<Rightarrow> Inl e
              | Inr res \<Rightarrow> Inr (FunctionArn res, CodeSha256 res))"
      and fields: "FunctionName params = name config" "Description params = description config"
        "Handler params = handler config" "MemorySize params = memory config"
        "Timeout params = timeout config" "Runtime params = runtime config"
        "Role params = a" "Environment params = Some \<lparr>Variables = env config\<rparr>"
        "VpcConfig params = vpcConfig config" "TracingConfig params = tracingConfig config"
        "Architectures params = Some [architecture config]"
    by auto
  let ?c = "Call CreateFunction params"
  have rest: "\<exists>polls. trace (default_deploy h lambda fs state inputs) = [?g, ?c] @ polls
         \<and> (\<forall>ev \<in> set polls. \<not> mutating ev)
         \<and> (\<forall>res out. respond lambda [?g] CreateFunction params = Inr res
                      \<and> returned (default_deploy h lambda fs state inputs) = Inr out
               \<longrightarrow> arn out = FunctionArn res \<and> hash out = CodeSha256 res
                   \<and> state_after (default_deploy h lambda fs state inputs) = out)"
  proof (cases "respond lambda [?g] CreateFunction params")
    case (Inl e')
    then have "reconcile lambda fs' [] config = ([?g, ?c], Inl e')"
      by (simp add: reconcile_def evaluate_def g cl)
    then have "default_deploy h lambda fs state inputs
                 = \<lparr>trace = [?g, ?c], returned = Inl e', state_after = state\<rparr>"
      by (simp add: default_deploy_def finish_def prep)
    then show ?thesis using Inl by simp
  next
    case (Inr res)
    let ?config = "config\<lparr>arn := FunctionArn res, hash := CodeSha256 res\<rparr>"
    obtain polls where polls:
        "fst (waitUntilReady lambda [?g, ?c] (name config) None) = [?g, ?c] @ polls"
        "\<forall>ev \<in> set polls. \<not> mutating ev"
      unfolding waitUntilReady_def using waitLoop_polls_only by blast
    show ?thesis
    proof (cases "snd (waitUntilReady lambda [?g, ?c] (name config) None)")
      case (Inl e')
      then have "waitUntilReady lambda [?g, ?c] (name config) None = ([?g, ?c] @ polls, Inl e')"
        using polls(1) by (cases "waitUntilReady lambda [?g, ?c] (name config) None") simp
      then have "reconcile lambda fs' [] config = ([?g, ?c] @ polls, Inl e')"
        by (simp add: reconcile_def evaluate_def g cl Inr Let_def)
      then have "default_deploy h lambda fs state inputs
                   = \<lparr>trace = [?g, ?c] @ polls, returned = Inl e', state_after = state\<rparr>"
        by (simp add: default_deploy_def finish_def prep)
      then show ?thesis using polls(2) by auto
    next
      case w: (Inr b)
      then have "waitUntilReady lambda [?g, ?c] (name config) None = ([?g, ?c] @ polls, Inr b)"
        using polls(1) by (cases "waitUntilReady lambda [?g, ?c] (name config) None") simp
      then have "reconcile lambda fs' [] config = ([?g, ?c] @ polls, Inr ?config)"
        by (simp add: reconcile_def evaluate_def g cl Inr Let_def)
      then have "default_deploy h lambda fs state inputs
                   = \<lparr>trace = [?g, ?c] @ polls, returned = Inr (outputsList_pick ?config),
                      state_after = outputsList_pick ?config\<rparr>"
        using n by (cases "truthy (name state)") (simp_all add: default_deploy_def finish_def prep Let_def)
      then show ?thesis using polls(2) Inr by (auto simp: outputsList_pick_def empty_obj_def)
    qed
  qed
  then show ?thesis using fields r ar by auto
qed

lemma default_never_updates:
  "\<forall>ev \<in> set (trace (default_deploy h lambda fs state inputs)).
     \<forall>params. ev \<noteq> Call UpdateFunctionCode params
            \<and> ev \<noteq> Call UpdateFunctionConfiguration params
            \<and> ev \<noteq> Call DeleteFunction params"
proof (cases "prepare h fs state inputs")
  case (Inl e)
  then show ?thesis by (simp add: default_deploy_def finish_def)
next
  case (Inr pair)
  obtain config fs' where prep: "prepare h fs state inputs = Inr (config, fs')"
    using Inr by (cases pair) simp
  let ?g = "Call GetFunctionConfiguration (empty_aws\<lparr>FunctionName := name config\<rparr>)"
  obtain res where g: "getLambda lambda [] (name config) = ([?g], res)"
    using getLambda_trace [of lambda "[]" "name config"]
    by (cases "getLambda lambda [] (name config)") simp
  show ?thesis
  proof (cases res)
    case (Inl e)
    then have "default_deploy h lambda fs state inputs = \<lparr>trace = [?g], returned = Inl e, state_after = state\<rparr>"
      by (simp add: default_deploy_def finish_def prep reconcile_def evaluate_def g)
    then show ?thesis by simp
  next
    case found: (Inr observed)
    show ?thesis
    proof (cases observed)
      case None
      from getLambda_absent [OF g [unfolded found None]] obtain e where
          "respond lambda [] GetFunctionConfiguration (empty_aws\<lparr>FunctionName := name config\<rparr>) = Inl e"
          "error_code e = Some ''ResourceNotFoundException''"
        by blast
      from default_absent_creates [OF prep this] obtain params polls where
          "trace (default_deploy h lambda fs state inputs) = [?g, Call CreateFunction params] @ polls"
          "\<forall>ev \<in> set polls. \<not> mutating ev"
        by blast
      then show ?thesis by auto
    next
      case (Some prevLambda)
      from prepare_props [OF prep] obtain a where
          "role (config\<lparr>arn := arn prevLambda\<rparr>) = Some \<lparr>role_arn = a, role_name = None, service = None\<rparr>"
          and n: "truthy (name state) \<longrightarrow> name config = name state"
        by auto
      from configChanged_fields [OF this(1), of prevLambda] obtain b where
          c: "configChanged prevLambda (config\<lparr>arn := arn prevLambda\<rparr>) = Inr b"
        by blast
      show ?thesis
      proof (cases b)
        case True
        then have c': "configChanged prevLambda (config\<lparr>arn := arn prevLambda\<rparr>) = Inr True"
          using c by simp
        show ?thesis
          using default_throws_when_changed [OF prep g [unfolded found Some] c']
          by simp
      next
        case False
        have "reconcile lambda fs' [] config = ([?g], Inr (config\<lparr>arn := arn prevLambda\<rparr>))"
          using c False by (simp add: reconcile_def evaluate_def g found Some Let_def)
        then have "trace (default_deploy h lambda fs state inputs) = [?g]"
          using n by (cases "truthy (name state)") (simp_all add: default_deploy_def finish_def prep Let_def)
        then show ?thesis by simp
      qed
    qed
  qed
qed

text \<open>
  C3. When the function exists and the observed object equals the desired configuration
  on each of the eight compared keys (description, runtime, the ARN of the role, handler,
  memory, timeout, env, hash), \<open>default\<close> makes the one read call and nothing else: no
  create, no code update, no configuration update, no delete. It returns the outputs, with
  the observed ARN, and saves them as the new state.
\<close>

theorem default_noop:
  assumes "prepare h fs state inputs = Inr (config, fs')"
    and "getLambda lambda [] (name config) = (tr, Inr (Some prevLambda))"
    and "description prevLambda = description config"
    and "runtime prevLambda = runtime config"
    and "map_option role_arn (role prevLambda) = map_option role_arn (role config)"
    and "handler prevLambda = handler config"
    and "memory prevLambda = memory config"
    and "timeout prevLambda = timeout config"
    and "env prevLambda = env config"
    and "hash prevLambda = hash config"
  shows "default_deploy h lambda fs state inputs
           = \<lparr>trace = [Call GetFunctionConfiguration (empty_aws\<lparr>FunctionName := name config\<rparr>)],
              returned = Inr (outputsList_pick (config\<lparr>arn := arn prevLambda\<rparr>)),
              state_after = outputsList_pick (config\<lparr>arn := arn prevLambda\<rparr>)\<rparr>
       \<and> (\<forall>ev \<in> set (trace (default_deploy h lambda fs state inputs)). \<not> mutating ev)"
proof -
  from prepare_props [OF assms(1)] obtain a where
      r: "role config = Some \<lparr>role_arn = a, role_name = None, service = None\<rparr>"
      and n: "truthy (name state) \<longrightarrow> name config = name state"
    by blast
  from getLambda_found [OF assms(2)] obtain b where
      tr: "tr = [Call GetFunctionConfiguration (empty_aws\<lparr>FunctionName := name config\<rparr>)]"
      and pr: "role prevLambda = Some \<lparr>role_arn = b, role_name = None, service = None\<rparr>"
    by auto
  have ab: "a = b" using assms(5) r pr by simp
  have same: "configChanged prevLambda (config\<lparr>arn := arn prevLambda\<rparr>) = Inr False"
    using configChanged_fields [of "config\<lparr>arn := arn prevLambda\<rparr>" _ prevLambda] r pr ab assms(3,4,6-10)
    by simp
  have rec: "reconcile lambda fs' [] config = (tr, Inr (config\<lparr>arn := arn prevLambda\<rparr>))"
    by (simp add: reconcile_def evaluate_def assms(2) same Let_def)
  have d: "default_deploy h lambda fs state inputs
           = \<lparr>trace = tr,
              returned = Inr (outputsList_pick (config\<lparr>arn := arn prevLambda\<rparr>)),
              state_after = outputsList_pick (config\<lparr>arn := arn prevLambda\<rparr>)\<rparr>"
    using n by (cases "truthy (name state)") (simp_all add: default_deploy_def finish_def assms(1) rec Let_def)
  show ?thesis
    unfolding d tr by simp
qed

theorem default_noop_witness:
  "default_deploy sample_host (scripted (\<lambda>a. Inr sample_remote) (Some 0) 0)
       (sample_fs [(''index.js'', File)]) empty_obj empty_obj
     = \<lparr>trace = [Call GetFunctionConfiguration (empty_aws\<lparr>FunctionName := Some ''fn-1''\<rparr>)],
        returned = Inr (outputsList_pick
                     (sample_config\<lparr>arn := Some ''arn:aws:lambda:us-east-1:1:function:fn-1''\<rparr>)),
        state_after = outputsList_pick
                     (sample_config\<lparr>arn := Some ''arn:aws:lambda:us-east-1:1:function:fn-1''\<rparr>)\<rparr>"
proof -
  let ?lambda = "scripted (\<lambda>a. Inr sample_remote) (Some 0) 0"
  let ?prev = "empty_obj
             \<lparr>name := FunctionName sample_remote,
              description := Description sample_remote,
              timeout := Timeout sample_remote,
              runtime := Runtime sample_remote,
              role := Some \<lparr>role_arn = Role sample_remote, role_name = None, service = None\<rparr>,
              handler := Handler sample_remote,
              memory := MemorySize sample_remote,
              hash := CodeSha256 sample_remote,
              env := Some Map.empty,
              arn := FunctionArn sample_remote\<rparr>"
  have g: "getLambda ?lambda [] (name sample_config)
             = ([Call GetFunctionConfiguration (empty_aws\<lparr>FunctionName := name sample_config\<rparr>)],
                Inr (Some ?prev))"
    by (simp add: remote_eval)
  have eqs: "description ?prev = description sample_config" "runtime ?prev = runtime sample_config"
      "map_option role_arn (role ?prev) = map_option role_arn (role sample_config)"
      "handler ?prev = handler sample_config" "memory ?prev = memory sample_config"
      "timeout ?prev = timeout sample_config" "env ?prev = env sample_config"
      "hash ?prev = hash sample_config"
    by (simp_all add: remote_eval)
  show ?thesis
    using default_noop [OF prepare_sample g eqs]
    by (simp add: remote_eval)
qed

text \<open>
  C10. The object that \<open>getLambda\<close> returns never has the property \<open>architectures\<close>,
  whatever the backend reports. Whenever the function exists and \<open>configChanged\<close> is true,
  \<open>default\<close> reads index 0 of that absent property and throws a \<open>TypeError\<close>: it has made
  the read call only, and the state is what it was.
\<close>

theorem observed_architectures_absent:
  "(getLambda lambda tr0 fnName = (tr1, Inr (Some observed)) \<longrightarrow> architectures observed = None)
   \<and> (prepare h fs state inputs = Inr (config, fs')
        \<and> getLambda lambda [] (name config) = (tr, Inr (Some prevLambda))
        \<and> configChanged prevLambda (config\<lparr>arn := arn prevLambda\<rparr>) = Inr True
      \<longrightarrow> default_deploy h lambda fs state inputs
            = \<lparr>trace = [Call GetFunctionConfiguration (empty_aws\<lparr>FunctionName := name config\<rparr>)],
               returned = Inl (TypeError ''Cannot read properties of undefined (reading '0')''),
               state_after = state\<rparr>)"
  using getLambda_found default_throws_when_changed by blast

theorem observed_architectures_absent_witness:
  "architectures (observed_of sample_remote) = None
   \<and> Architectures sample_remote = Some [Some ''arm64'']
   \<and> default_deploy sample_host
       (scripted (\<lambda>a. Inr (sample_remote\<lparr>Timeout := Some 3\<rparr>)) (Some 0) 0)
       (sample_fs [(''index.js'', File)]) empty_obj empty_obj
     = \<lparr>trace = [Call GetFunctionConfiguration (empty_aws\<lparr>FunctionName := Some ''fn-1''\<rparr>)],
        returned = Inl (TypeError ''Cannot read properties of undefined (reading '0')''),
        state_after = empty_obj\<rparr>"
proof -
  let ?lambda = "scripted (\<lambda>a. Inr (sample_remote\<lparr>Timeout := Some 3\<rparr>)) (Some 0) 0"
  have n: "name sample_config = Some ''fn-1''"
    by (simp add: sample_config_def)
  have r: "role (sample_config\<lparr>arn := x\<rparr>)
             = Some \<lparr>role_arn = Some ''arn:aws:iam::1:role/r'', role_name = None, service = None\<rparr>" for x
    by (simp add: sample_config_def)
  have g0: "getLambda (scripted (\<lambda>a. Inr sample_remote) (Some 0) 0) [] (Some ''fn-1'')
             = ([Call GetFunctionConfiguration (empty_aws\<lparr>FunctionName := Some ''fn-1''\<rparr>)],
                Inr (Some (observed_of sample_remote)))"
    by (simp add: getLambda_scripted)
  have g: "getLambda ?lambda [] (name sample_config)
             = ([Call GetFunctionConfiguration (empty_aws\<lparr>FunctionName := name sample_config\<rparr>)],
                Inr (Some (observed_of (sample_remote\<lparr>Timeout := Some 3\<rparr>))))"
    by (simp add: getLambda_scripted)
  have c: "configChanged (observed_of (sample_remote\<lparr>Timeout := Some 3\<rparr>))
              (sample_config\<lparr>arn := x\<rparr>) = Inr True" for x
    unfolding configChanged_fields [OF r]
    by (simp add: observed_of_def sample_remote_def empty_aws_def empty_obj_def sample_config_def)
  have a: "Architectures sample_remote = Some [Some ''arm64'']"
    by (simp add: sample_remote_def empty_aws_def)
  show ?thesis
    using observed_architectures_absent [where lambda = "scripted (\<lambda>a. Inr sample_remote) (Some 0) 0"
        and ?tr0.0 = "[]" and fnName = "Some ''fn-1''" and observed = "observed_of sample_remote"
        and ?tr1.0 = "[Call GetFunctionConfiguration (empty_aws\<lparr>FunctionName := Some ''fn-1''\<rparr>)]"
        and h = sample_host and fs = "sample_fs [(''index.js'', File)]" and state = empty_obj
        and inputs = empty_obj and config = sample_config and fs' = packed_fs]
      observed_architectures_absent [where lambda = ?lambda
        and h = sample_host and fs = "sample_fs [(''index.js'', File)]" and state = empty_obj
        and inputs = empty_obj and config = sample_config and fs' = packed_fs
        and prevLambda = "observed_of (sample_remote\<lparr>Timeout := Some 3\<rparr>)"
        and tr = "[Call GetFunctionConfiguration (empty_aws\<lparr>FunctionName := name sample_config\<rparr>)]"]
      g0 g c a prepare_sample n
    by simp
qed

text \<open>
  C2. In the update branch \<open>default\<close> throws before it issues any update. Two runs with
  empty inputs against a deployed function: in the first only the environment differs,
  in the second only the hash (and no bucket is configured). Both end in the
  \<open>TypeError\<close> after the read call alone: neither a code update nor a configuration
  update is issued.
\<close>

theorem default_update_branch_throws:
  "default_deploy sample_host
       (scripted (\<lambda>a. Inr (sample_remote\<lparr>Environment := Some \<lparr>Variables = Some [''STAGE'' \<mapsto> ''old'']\<rparr>\<rparr>))
          (Some 0) 0)
       (sample_fs [(''index.js'', File)]) empty_obj empty_obj
     = \<lparr>trace = [Call GetFunctionConfiguration (empty_aws\<lparr>FunctionName := Some ''fn-1''\<rparr>)],
        returned = Inl (TypeError ''Cannot read properties of undefined (reading '0')''),
        state_after = empty_obj\<rparr>
   \<and> default_deploy sample_host
       (scripted (\<lambda>a. Inr (sample_remote\<lparr>CodeSha256 := Some ''sha256:previous''\<rparr>)) (Some 0) 0)
       (sample_fs [(''index.js'', File)]) empty_obj empty_obj
     = \<lparr>trace = [Call GetFunctionConfiguration (empty_aws\<lparr>FunctionName := Some ''fn-1''\<rparr>)],
        returned = Inl (TypeError ''Cannot read properties of undefined (reading '0')''),
        state_after = empty_obj\<rparr>"
proof -
  have n: "name sample_config = Some ''fn-1''"
    by (simp add: sample_config_def)
  have r: "role (sample_config\<lparr>arn := x\<rparr>)
             = Some \<lparr>role_arn = Some ''arn:aws:iam::1:role/r'', role_name = None, service = None\<rparr>" for x
    by (simp add: sample_config_def)
  have c1: "configChanged
              (observed_of (sample_remote\<lparr>Environment := Some \<lparr>Variables = Some [''STAGE'' \<mapsto> ''old'']\<rparr>\<rparr>))
              (sample_config\<lparr>arn := x\<rparr>) = Inr True" for x
    unfolding configChanged_fields [OF r]
    by (simp add: observed_of_def sample_remote_def empty_aws_def empty_obj_def sample_config_def
          empty_neq_upd)
  have c2: "configChanged (observed_of (sample_remote\<lparr>CodeSha256 := Some ''sha256:previous''\<rparr>))
              (sample_config\<lparr>arn := x\<rparr>) = Inr True" for x
    unfolding configChanged_fields [OF r]
    by (simp add: observed_of_def sample_remote_def empty_aws_def empty_obj_def sample_config_def)
  show ?thesis
    using default_throws_when_changed [OF prepare_sample, OF _ c1]
          default_throws_when_changed [OF prepare_sample, OF _ c2]
    by (simp add: getLambda_scripted n)
qed

text \<open>
  C5. With empty inputs and no function deployed, \<open>default\<close> makes the read call, one
  create call and one readiness poll, and stores the ARN and hash of the create response.
  The \<open>Architectures\<close> list of the create call holds \<open>undefined\<close>, while the
  \<open>architectures\<close> of the configuration and of the outputs is \<open>arm64\<close>.
\<close>

theorem default_create_drops_architectures:
  "default_deploy sample_host
       (scripted (\<lambda>a. if a = GetFunctionConfiguration then Inl not_found else Inr sample_remote) (Some 0) 0)
       (sample_fs [(''index.js'', File)]) empty_obj empty_obj
     = \<lparr>trace =
          [Call GetFunctionConfiguration (empty_aws\<lparr>FunctionName := Some ''fn-1''\<rparr>),
           Call CreateFunction
             (empty_aws\<lparr>FunctionName := Some ''fn-1'',
                        Code := Some (empty_code\<lparr>ZipFile := Some ''zip:/index.js=I''\<rparr>),
                        Description := Some ''AWS Lambda Component'',
                        Handler := Some ''handler.hello'',
                        MemorySize := Some 512,
                        Publish := Some True,
                        Role := Some ''arn:aws:iam::1:role/r'',
                        Runtime := Some ''nodejs18.x'',
                        Architectures := Some [None],
                        Timeout := Some 10,
                        Environment := Some \<lparr>Variables = Some Map.empty\<rparr>,
                        TracingConfig := Some \<lparr>Mode = Some ''PassThrough''\<rparr>\<rparr>),
           Call GetFunction (empty_aws\<lparr>FunctionName := Some ''fn-1''\<rparr>)],
        returned = Inr (outputsList_pick (sample_config
                     \<lparr>arn := Some ''arn:aws:lambda:us-east-1:1:function:fn-1''\<rparr>)),
        state_after = outputsList_pick (sample_config
                     \<lparr>arn := Some ''arn:aws:lambda:us-east-1:1:function:fn-1''\<rparr>)\<rparr>
   \<and> architectures (outputsList_pick (sample_config
                     \<lparr>arn := Some ''arn:aws:lambda:us-east-1:1:function:fn-1''\<rparr>)) = Some [''arm64'']"
proof -
  let ?lambda = "scripted (\<lambda>a. if a = GetFunctionConfiguration then Inl not_found else Inr sample_remote) (Some 0) 0"
  let ?g = "Call GetFunctionConfiguration (empty_aws\<lparr>FunctionName := Some ''fn-1''\<rparr>)"
  let ?c = "Call CreateFunction
             (empty_aws\<lparr>FunctionName := Some ''fn-1'',
                        Code := Some (empty_code\<lparr>ZipFile := Some ''zip:/index.js=I''\<rparr>),
                        Description := Some ''AWS Lambda Component'',
                        Handler := Some ''handler.hello'',
                        MemorySize := Some 512,
                        Publish := Some True,
                        Role := Some ''arn:aws:iam::1:role/r'',
                        Runtime := Some ''nodejs18.x'',
                        Architectures := Some [None],
                        Timeout := Some 10,
                        Environment := Some \<lparr>Variables = Some Map.empty\<rparr>,
                        TracingConfig := Some \<lparr>Mode = Some ''PassThrough''\<rparr>\<rparr>)"
  have g: "getLambda ?lambda [] (name sample_config) = ([?g], Inr None)"
    by (simp add: getLambda_scripted not_found_def sample_config_def)
  have z: "contents packed_fs ''/tmp/o82mvyr.zip'' = Some ''zip:/index.js=I''"
    by (simp add: packed_fs_def)
  have c: "createLambda ?lambda packed_fs [?g] sample_config
             = ([?g, ?c], Inr (Some ''arn:aws:lambda:us-east-1:1:function:fn-1'',
                               Some ''sha256:zip:/index.js=I''))"
    by (simp add: createLambda_def codeParams_def layerParams_def call_def truthy_def z
          scripted_def sample_config_def sample_remote_def empty_aws_def empty_code_def)
  have w: "waitUntilReady ?lambda [?g, ?c] (Some ''fn-1'') None
             = ([?g, ?c, Call GetFunction (empty_aws\<lparr>FunctionName := Some ''fn-1''\<rparr>)], Inr True)"
    by (simp add: waitUntilReady_def waitLoop.simps scripted_def ready_def waitDurationMillis_def
          empty_aws_def)
  have n: "name (sample_config\<lparr>arn := x, hash := y\<rparr>) = Some ''fn-1''" for x y
    by (simp add: sample_config_def)
  have same: "sample_config\<lparr>arn := x, hash := Some ''sha256:zip:/index.js=I''\<rparr> = sample_config\<lparr>arn := x\<rparr>" for x
    by (simp add: sample_config_def)
  have rec: "reconcile ?lambda packed_fs [] sample_config
               = ([?g, ?c, Call GetFunction (empty_aws\<lparr>FunctionName := Some ''fn-1''\<rparr>)],
                  Inr (sample_config\<lparr>arn := Some ''arn:aws:lambda:us-east-1:1:function:fn-1''\<rparr>))"
    by (simp add: reconcile_def evaluate_def g c n w same Let_def)
  have d: "default_deploy sample_host ?lambda (sample_fs [(''index.js'', File)]) empty_obj empty_obj
     = \<lparr>trace = [?g, ?c, Call GetFunction (empty_aws\<lparr>FunctionName := Some ''fn-1''\<rparr>)],
        returned = Inr (outputsList_pick (sample_config
                     \<lparr>arn := Some ''arn:aws:lambda:us-east-1:1:function:fn-1''\<rparr>)),
        state_after = outputsList_pick (sample_config
                     \<lparr>arn := Some ''arn:aws:lambda:us-east-1:1:function:fn-1''\<rparr>)\<rparr>"
    by (simp add: default_deploy_def finish_def prepare_sample rec not_truthy_empty Let_def)
  have a: "architectures (outputsList_pick (sample_config
                     \<lparr>arn := Some ''arn:aws:lambda:us-east-1:1:function:fn-1''\<rparr>)) = Some [''arm64'']"
    by (simp add: outputsList_pick_def sample_config_def empty_obj_def)
  show ?thesis using d a by simp
qed



end
